theory Spec2Isabelle
  imports Complex_Main "HOL-Library.Sublist"
begin

section \<open>Strings: the library functions the router calls\<close>

text \<open>
  A Go string is a sequence of bytes, here a \<^typ>\<open>string\<close>. \<open>strings.TrimSpace\<close> removes
  leading and trailing white space "as defined by Unicode": the runes for which
  \<open>unicode.IsSpace\<close> holds. On a byte string a rune is white space exactly when the bytes
  are its UTF-8 encoding (overlong or broken encodings decode to the replacement rune,
  which is not white space), so the model strips these encodings from both ends.
\<close>

definition unicode_space_encodings :: "string list" where
  "unicode_space_encodings =
     [[CHR 0x09], [CHR 0x0A], [CHR 0x0B], [CHR 0x0C], [CHR 0x0D], [CHR 0x20],
      [CHR 0xC2, CHR 0x85], [CHR 0xC2, CHR 0xA0],
      [CHR 0xE1, CHR 0x9A, CHR 0x80],
      [CHR 0xE2, CHR 0x80, CHR 0x80], [CHR 0xE2, CHR 0x80, CHR 0x81],
      [CHR 0xE2, CHR 0x80, CHR 0x82], [CHR 0xE2, CHR 0x80, CHR 0x83],
      [CHR 0xE2, CHR 0x80, CHR 0x84], [CHR 0xE2, CHR 0x80, CHR 0x85],
      [CHR 0xE2, CHR 0x80, CHR 0x86], [CHR 0xE2, CHR 0x80, CHR 0x87],
      [CHR 0xE2, CHR 0x80, CHR 0x88], [CHR 0xE2, CHR 0x80, CHR 0x89],
      [CHR 0xE2, CHR 0x80, CHR 0x8A],
      [CHR 0xE2, CHR 0x80, CHR 0xA8], [CHR 0xE2, CHR 0x80, CHR 0xA9],
      [CHR 0xE2, CHR 0x80, CHR 0xAF],
      [CHR 0xE2, CHR 0x81, CHR 0x9F],
      [CHR 0xE3, CHR 0x80, CHR 0x80]]"

text \<open>The number of bytes of the first of the encodings \<open>ps\<close> that \<open>s\<close> starts with, or 0.\<close>

definition lead_width :: "string list \<Rightarrow> string \<Rightarrow> nat" where
  "lead_width ps s = (case find (\<lambda>p. prefix p s) ps of None \<Rightarrow> 0 | Some p \<Rightarrow> length p)"

function trim_lead :: "string list \<Rightarrow> string \<Rightarrow> string" where
  "trim_lead ps s =
     (if lead_width ps s = 0 then s else trim_lead ps (drop (lead_width ps s) s))"
  by pat_completeness auto
termination
proof (relation "measure (\<lambda>(ps, s). length s)")
  show "wf (measure (\<lambda>(ps, s). length s))" by simp
next
  fix ps :: "string list" and s :: string
  assume "lead_width ps s \<noteq> 0"
  moreover have "lead_width ps s \<le> length s"
    by (auto simp: lead_width_def find_Some_iff prefix_length_le split: option.splits)
  ultimately show "((ps, drop (lead_width ps s) s), (ps, s)) \<in> measure (\<lambda>(ps, s). length s)"
    by simp
qed

declare trim_lead.simps [simp del]

definition TrimSpace :: "string \<Rightarrow> string" where
  "TrimSpace s =
     rev (trim_lead (map rev unicode_space_encodings)
            (rev (trim_lead unicode_space_encodings s)))"

text \<open>
  \<open>strings.ToLower\<close>, on the ASCII letters. The router compares the result with
  \<open>"true"\<close>, \<open>"1"\<close>, \<open>"yes"\<close> and \<open>"on"\<close> only, and no rune outside ASCII has a lower case
  among the letters of these words, so the comparison is the one of the source.
\<close>

definition ToLower :: "string \<Rightarrow> string" where
  "ToLower s =
     map (\<lambda>c. if 65 \<le> (of_char c :: nat) \<and> (of_char c :: nat) \<le> 90
               then char_of ((of_char c :: nat) + 32) else c) s"

section \<open>The attempt planner (utils.go)\<close>

text \<open>
  \<open>buildAttemptModels\<close> keeps two locals, the set \<open>seen\<close> and the slice \<open>out\<close>, and the
  closure \<open>add\<close> updates both. The model passes the pair explicitly.
\<close>

definition add :: "string set \<times> string list \<Rightarrow> string \<Rightarrow> string set \<times> string list" where
  "add st model =
     (let m = TrimSpace model in
      if m = [] then st
      else if m \<in> fst st then st
      else (insert m (fst st), snd st @ [m]))"

definition buildAttemptModels :: "string \<Rightarrow> string list \<Rightarrow> string list" where
  "buildAttemptModels primary fallbacks = snd (foldl add (add ({}, []) primary) fallbacks)"

text \<open>
  The planner as the specification words it: the primary followed by the fallbacks, every
  entry trimmed, the empty ones dropped, duplicates removed keeping the first occurrence.
\<close>

fun dedup_first :: "string list \<Rightarrow> string list" where
  "dedup_first [] = []"
| "dedup_first (x # xs) = x # dedup_first (filter (\<lambda>y. y \<noteq> x) xs)"

definition plan_spec :: "string \<Rightarrow> string list \<Rightarrow> string list" where
  "plan_spec primary fallbacks =
     dedup_first (filter (\<lambda>m. m \<noteq> []) (map TrimSpace (primary # fallbacks)))"


section \<open>Data model (main.go)\<close>

text \<open>
  A payload is Go's \<open>map[string]interface{}\<close> as \<open>encoding/json\<close> fills it: a finite map
  from keys to JSON values (a number is a \<open>float64\<close>, of which the router only asks
  whether it is zero).
\<close>

datatype json =
    JNull
  | JBool bool
  | JNumber real
  | JString string
  | JArray "json list"
  | JObject "(string \<times> json) list"

type_synonym payload = "string \<rightharpoonup> json"

text \<open>
  \<open>http.Header\<close> maps a header name to its values. \<open>Del\<close> and \<open>Set\<close> act on the
  canonical form of the name they are given; every name the router passes is a literal
  already in canonical form, and the keys of a header map that \<open>net/http\<close> parsed are
  canonical too, so the model acts on the literal key.
\<close>

type_synonym http_header = "string \<rightharpoonup> string list"

definition Header_Del :: "string \<Rightarrow> http_header \<Rightarrow> http_header" where
  "Header_Del key h = h(key := None)"

definition Header_Set :: "string \<Rightarrow> string \<Rightarrow> http_header \<Rightarrow> http_header" where
  "Header_Set key v h = h(key \<mapsto> [v])"

text \<open>
  Errors, as far as the router tells them apart: \<open>errors.Is(err, context.Canceled)\<close>,
  \<open>errors.Is(err, io.EOF)\<close>, anything else (with its message).
\<close>

datatype go_error = Canceled | EOF | OtherError string

text \<open>
  An \<open>io.Reader\<close> is given by what its successive \<open>Read\<close> calls return, up to and
  including the first call that returns an error: \<open>Chunk d rest\<close> is a call returning
  the bytes \<open>d\<close> (possibly none) and no error; \<open>Final d e\<close> a call returning \<open>d\<close> together
  with the error \<open>e\<close> (\<open>EOF\<close> at the regular end). A reader whose calls never return an
  error has no such history: the loops reading it never return, and neither does the
  handler; the model covers the readers that end.
\<close>

datatype body_script = Chunk string body_script | Final string go_error

record url =
  Scheme :: string
  Host :: string
  Path :: string
  RawQuery :: string

text \<open>The inbound \<open>*http.Request\<close>; \<open>req_TLS\<close> tells whether \<open>TLS\<close> is non-nil.\<close>

record request =
  req_Method :: string
  req_URL :: url
  req_Host :: string
  req_Header :: http_header
  req_Body :: "body_script option"
  req_TLS :: bool

record http_response =
  StatusCode :: int
  Header :: http_header
  Body :: body_script

record cachedResponse =
  status :: int
  header :: http_header
  body :: string

text \<open>
  \<open>proxyConfig\<close>. A \<open>time.Duration\<close> is a count of nanoseconds (an \<open>int64\<close>; the router
  only compares and passes durations on, so no arithmetic can overflow). The shared
  \<open>client\<close> and the \<open>baseTransport\<close> are named by \<open>client_kind\<close> below.
\<close>

record proxyConfig =
  targetURL :: url
  fallbackModels :: "string list"
  defaultTimeout :: int
  fallbackDefaultTimeout :: int
  fallbackTimeouts :: "string \<rightharpoonup> int"
  noRetryStatuses :: "int set"

text \<open>
  What \<open>doUpstreamRequest\<close> hands to the HTTP client: the request it built, the deadline
  of its context (\<open>context.WithTimeout\<close>), and the client it calls: the shared one, or a
  fresh one from \<open>newStreamClient\<close> (response-header timeout set, keep-alives disabled).
  \<open>out_target\<close> is the URL that \<open>buildUpstreamURL\<close> returns; the request is made from
  its \<open>String()\<close>, which \<open>http.NewRequestWithContext\<close> parses again, and neither the
  printing nor the parsing is modelled.
\<close>

datatype client_kind = SharedClient | StreamClient int

record outbound_request =
  out_Method :: string
  out_target :: url
  out_Header :: http_header
  out_Host :: string
  out_ContentLength :: nat
  out_Body :: string
  out_ctx_timeout :: "int option"
  out_client :: client_kind

datatype upstream_result = DoError go_error | DoResponse http_response

text \<open>
  The \<open>http.ResponseWriter\<close> of the caller: its header map; the \<open>WriteHeader\<close>,
  \<open>Write\<close> and \<open>Flush\<close> calls made on it, in order; and the header as it goes out to
  the caller. The header goes out with the status line: \<open>w_sent_header\<close> is \<open>None\<close>
  until the first call on the writer, which stores the header map as it is at that
  moment, and changes of the header map after that call have no effect on it. What the
  caller receives is the status of the \<open>WriteHeader\<close> call, the header sent, and the
  bytes of the writes.
\<close>

datatype writer_call = WriteHeader int | Write string | Flush

record response_writer =
  w_header :: http_header
  w_calls :: "writer_call list"
  w_sent_header :: "http_header option"

datatype log_entry =
    LogEmptyRequestBody
  | LogReadBodyFailed go_error
  | LogInvalidJsonBody
  | LogMarshalFailed
  | LogRequestCanceled
  | LogUpstreamError string nat nat go_error
  | LogStreamCanceled
  | LogStreamCopyFailed string go_error
  | LogReadErrorResponseFailed string go_error
  | LogReadResponseFailed string go_error
  | LogRetrying string int nat nat
  | LogAllAttemptsFailed go_error

text \<open>
  The state one call of the handler works on: of the \<open>gin.Context\<close> the request, the
  writer and the abort flag; the lines given to \<open>log.Printf\<close>; the requests handed to the
  HTTP client so far, one per attempt executed; and the handler's locals \<open>payload\<close>
  (whose \<open>model\<close> entry every attempt overwrites), \<open>lastResp\<close> and \<open>lastErr\<close>.
\<close>

record hstate =
  Request :: "request option"
  Writer :: response_writer
  aborted :: bool
  logs :: "log_entry list"
  dispatched :: "outbound_request list"
  payload :: payload
  lastResp :: "cachedResponse option"
  lastErr :: "go_error option"

text \<open>
  The environment of one call: \<open>encoding/json\<close> (parsing into a payload, and serializing
  one; \<open>None\<close> is an error), what the upstream does at the attempt of each index
  (\<open>http.NewRequestWithContext\<close> and \<open>client.Do\<close>: an error or a response), and what each
  \<open>Write\<close> on the caller's connection returns, by the number of writes before it.
\<close>

record env =
  json_Unmarshal :: "string \<Rightarrow> payload option"
  json_Marshal :: "payload \<Rightarrow> string option"
  client_Do :: "nat \<Rightarrow> upstream_result"
  write_result :: "nat \<Rightarrow> go_error option"

section \<open>Helpers (utils.go)\<close>

definition hopByHopHeaders :: "string list" where
  "hopByHopHeaders =
     [''Connection'', ''Proxy-Connection'', ''Keep-Alive'', ''Proxy-Authenticate'',
      ''Proxy-Authorization'', ''Te'', ''Trailer'', ''Transfer-Encoding'', ''Upgrade'']"

text \<open>\<open>io.ReadAll\<close>: all the bytes read, and the error that ended the reading unless it is \<open>EOF\<close>.\<close>

fun ReadAll :: "body_script \<Rightarrow> string \<times> go_error option" where
  "ReadAll (Chunk d rest) = (case ReadAll rest of (ds, e) \<Rightarrow> (d @ ds, e))"
| "ReadAll (Final d e) = (d, if e = EOF then None else Some e)"

text \<open>\<open>copyHeaders\<close> overwrites in \<open>dst\<close> every key of \<open>src\<close> and leaves the others.\<close>

definition copyHeaders :: "http_header \<Rightarrow> http_header \<Rightarrow> http_header" where
  "copyHeaders dst src = (\<lambda>k. case src k of None \<Rightarrow> dst k | Some v \<Rightarrow> Some v)"

definition cloneHeader :: "http_header \<Rightarrow> http_header" where
  "cloneHeader src = copyHeaders Map.empty src"

definition stripHopByHopHeaders :: "http_header \<Rightarrow> http_header" where
  "stripHopByHopHeaders h = foldl (\<lambda>h key. Header_Del key h) h hopByHopHeaders"

definition readResponse :: "http_response \<Rightarrow> go_error + cachedResponse" where
  "readResponse resp =
     (case ReadAll (Body resp) of
        (b, Some err) \<Rightarrow> Inl err
      | (b, None) \<Rightarrow>
          Inr \<lparr>status = StatusCode resp, header = cloneHeader (Header resp), body = b\<rparr>)"

text \<open>\<open>strconv.Itoa\<close> of a length (never negative): its decimal digits.\<close>

fun Itoa :: "nat \<Rightarrow> string" where
  "Itoa n =
     (if n < 10 then [char_of (48 + n)]
      else Itoa (n div 10) @ [char_of (48 + n mod 10)])"

declare Itoa.simps [simp del]

definition is_Write :: "writer_call \<Rightarrow> bool" where
  "is_Write c = (case c of Write d \<Rightarrow> True | _ \<Rightarrow> False)"

text \<open>The header goes out at the first call on the writer, and only then.\<close>

definition send_header :: "response_writer \<Rightarrow> http_header option" where
  "send_header w = (case w_sent_header w of None \<Rightarrow> Some (w_header w) | Some h \<Rightarrow> Some h)"

definition WriteHeader_call :: "int \<Rightarrow> response_writer \<Rightarrow> response_writer" where
  "WriteHeader_call code w =
     w\<lparr>w_calls := w_calls w @ [WriteHeader code], w_sent_header := send_header w\<rparr>"

text \<open>
  \<open>w.Write(data)\<close>: the call is recorded; what it returns is the environment's answer for
  the write of this number.
\<close>

definition Write_call ::
  "env \<Rightarrow> response_writer \<Rightarrow> string \<Rightarrow> response_writer \<times> go_error option" where
  "Write_call e w data =
     (w\<lparr>w_calls := w_calls w @ [Write data], w_sent_header := send_header w\<rparr>,
      write_result e (length (filter is_Write (w_calls w))))"

definition Flush_call :: "response_writer \<Rightarrow> response_writer" where
  "Flush_call w = w\<lparr>w_calls := w_calls w @ [Flush], w_sent_header := send_header w\<rparr>"

definition writeResponse :: "env \<Rightarrow> response_writer \<Rightarrow> cachedResponse \<Rightarrow> response_writer" where
  "writeResponse e w resp =
     (let h1 = copyHeaders (w_header w) (header resp);
          h2 = stripHopByHopHeaders h1;
          h3 = Header_Del ''Content-Length'' h2;
          h4 = (if length (body resp) > 0
                then Header_Set ''Content-Length'' (Itoa (length (body resp))) h3
                else h3);
          w1 = WriteHeader_call (status resp) (w\<lparr>w_header := h4\<rparr>)
      in if length (body resp) > 0 then fst (Write_call e w1 (body resp)) else w1)"

text \<open>
  \<open>copyStream\<close>: one equation per \<open>Read\<close>. The writer of gin implements \<open>http.Flusher\<close>,
  so \<open>flusher\<close> is never nil.
\<close>

fun copyStream ::
  "env \<Rightarrow> response_writer \<Rightarrow> body_script \<Rightarrow> response_writer \<times> go_error option" where
  "copyStream e dst (Chunk d rest) =
     (if length d > 0 then
        (case Write_call e dst d of
           (dst1, Some werr) \<Rightarrow> (dst1, Some werr)
         | (dst1, None) \<Rightarrow> copyStream e (Flush_call dst1) rest)
      else copyStream e dst rest)"
| "copyStream e dst (Final d err) =
     (if length d > 0 then
        (case Write_call e dst d of
           (dst1, Some werr) \<Rightarrow> (dst1, Some werr)
         | (dst1, None) \<Rightarrow> (Flush_call dst1, if err = EOF then None else Some err))
      else (dst, if err = EOF then None else Some err))"

definition singleJoiningSlash :: "string \<Rightarrow> string \<Rightarrow> string" where
  "singleJoiningSlash a b =
     (let aslash = suffix ''/'' a; bslash = prefix ''/'' b in
      if aslash \<and> bslash then a @ drop 1 b
      else if \<not> aslash \<and> \<not> bslash then a @ ''/'' @ b
      else a @ b)"

definition joinQuery :: "string \<Rightarrow> string \<Rightarrow> string" where
  "joinQuery a b = (if a = [] then b else if b = [] then a else a @ ''&'' @ b)"

definition buildUpstreamURL :: "url \<Rightarrow> request \<Rightarrow> url" where
  "buildUpstreamURL base orig =
     base\<lparr>Path := singleJoiningSlash (Path base) (Path (req_URL orig)),
          RawQuery := joinQuery (RawQuery base) (RawQuery (req_URL orig))\<rparr>"

definition isStreamRequest :: "payload \<Rightarrow> bool" where
  "isStreamRequest p =
     (case p ''stream'' of
        None \<Rightarrow> False
      | Some (JBool v) \<Rightarrow> v
      | Some (JString v) \<Rightarrow>
          (let l = ToLower (TrimSpace v) in
           l = ''true'' \<or> l = ''1'' \<or> l = ''yes'' \<or> l = ''on'')
      | Some (JNumber v) \<Rightarrow> v \<noteq> 0
      | Some _ \<Rightarrow> False)"

definition extractModelName :: "payload \<Rightarrow> string" where
  "extractModelName p =
     (case p ''model'' of
        None \<Rightarrow> []
      | Some (JString s) \<Rightarrow> TrimSpace s
      | Some _ \<Rightarrow> [])"

section \<open>The handler (main.go)\<close>

definition logf :: "log_entry \<Rightarrow> hstate \<Rightarrow> hstate" where
  "logf l c = c\<lparr>logs := logs c @ [l]\<rparr>"

text \<open>
  The body gin writes for \<open>gin.H{"error": msg}\<close>: the JSON object with the one field
  \<open>error\<close>. The messages of the router are literals with nothing to escape.
\<close>

definition error_json :: "string \<Rightarrow> string" where
  \<open>error_json msg = ''{"error":"'' @ msg @ ''"}''\<close>

text \<open>
  \<open>c.AbortWithStatusJSON(code, gin.H{"error": msg})\<close>: gin sets the abort flag, gives the
  status to the writer, sets \<open>Content-Type\<close> unless the header map has one, and writes the
  body.
\<close>

definition AbortWithStatusJSON :: "env \<Rightarrow> int \<Rightarrow> string \<Rightarrow> hstate \<Rightarrow> hstate" where
  "AbortWithStatusJSON e code msg c =
     (let w = Writer c;
          h = (if w_header w ''Content-Type'' = None \<or> w_header w ''Content-Type'' = Some []
               then (w_header w)(''Content-Type'' \<mapsto> [''application/json; charset=utf-8''])
               else w_header w);
          w1 = WriteHeader_call code (w\<lparr>w_header := h\<rparr>)
      in c\<lparr>aborted := True, Writer := fst (Write_call e w1 (error_json msg))\<rparr>)"

definition readRequestPayload :: "env \<Rightarrow> hstate \<Rightarrow> hstate \<times> payload option" where
  "readRequestPayload e c =
     (case Request c of
        None \<Rightarrow>
          (AbortWithStatusJSON e 503 ''empty request body'' (logf LogEmptyRequestBody c), None)
      | Some r \<Rightarrow>
          (case req_Body r of
             None \<Rightarrow>
               (AbortWithStatusJSON e 503 ''empty request body'' (logf LogEmptyRequestBody c),
                None)
           | Some b \<Rightarrow>
               (case ReadAll b of
                  (bodyBytes, Some err) \<Rightarrow>
                    (AbortWithStatusJSON e 400 ''invalid request body''
                       (logf (LogReadBodyFailed err) c), None)
                | (bodyBytes, None) \<Rightarrow>
                    if length bodyBytes = 0 then
                      (AbortWithStatusJSON e 503 ''empty request body''
                         (logf LogEmptyRequestBody c), None)
                    else
                      (case json_Unmarshal e bodyBytes of
                         None \<Rightarrow>
                           (AbortWithStatusJSON e 503 ''invalid json body''
                              (logf LogInvalidJsonBody c), None)
                       | Some p \<Rightarrow> (c, Some p)))))"

text \<open>\<open>marshalPayloadWithModel\<close> stores the model in the caller's map, then serializes it.\<close>

definition marshalPayloadWithModel ::
  "env \<Rightarrow> payload \<Rightarrow> string \<Rightarrow> payload \<times> string option" where
  "marshalPayloadWithModel e p model =
     (p(''model'' \<mapsto> JString model), json_Marshal e (p(''model'' \<mapsto> JString model)))"

text \<open>
  A response body read after the context of its request has been cancelled: the context
  of an outgoing request controls the reading of the response body, so the first \<open>Read\<close>
  fails with \<open>context.Canceled\<close> (bytes the client may hold in a buffer are not counted
  on).
\<close>

definition canceled_body :: body_script where
  "canceled_body = Final [] Canceled"

text \<open>
  \<open>doUpstreamRequest\<close>: the request as the source builds it, and the answer of the
  environment for this attempt (an error of \<open>http.NewRequestWithContext\<close> is one of its
  errors). For an attempt that is not streaming and has a positive timeout the source
  derives a context with \<open>context.WithTimeout\<close> and defers its \<open>cancel\<close>: the cancel runs
  when \<open>doUpstreamRequest\<close> returns, so the caller of \<open>doUpstreamRequest\<close> holds a
  response whose body is read after the cancellation.
\<close>

definition doUpstreamRequest ::
  "env \<Rightarrow> nat \<Rightarrow> request \<Rightarrow> proxyConfig \<Rightarrow> string \<Rightarrow> int \<Rightarrow> bool
   \<Rightarrow> outbound_request \<times> upstream_result" where
  "doUpstreamRequest e idx orig cfg b timeout stream =
     (let upstreamURL = buildUpstreamURL (targetURL cfg) orig;
          h1 = cloneHeader (req_Header orig);
          h2 = stripHopByHopHeaders h1;
          h3 = Header_Del ''Accept-Encoding'' h2;
          h4 = Header_Set ''X-Forwarded-Host'' (req_Host orig) h3;
          h5 = Header_Set ''X-Forwarded-Proto'' (Scheme (targetURL cfg)) h4;
          req = \<lparr>out_Method = req_Method orig,
                 out_target = upstreamURL,
                 out_Header = h5,
                 out_Host = Host (targetURL cfg),
                 out_ContentLength = length b,
                 out_Body = b,
                 out_ctx_timeout = (if \<not> stream \<and> timeout > 0 then Some timeout else None),
                 out_client = (if stream \<and> timeout > 0 then StreamClient timeout
                               else SharedClient)\<rparr>
      in (req,
          case client_Do e idx of
            DoError err \<Rightarrow> DoError err
          | DoResponse resp \<Rightarrow>
              if \<not> stream \<and> timeout > 0 then DoResponse (resp\<lparr>Body := canceled_body\<rparr>)
              else DoResponse resp))"

definition timeoutForAttempt :: "proxyConfig \<Rightarrow> nat \<Rightarrow> string \<Rightarrow> int" where
  "timeoutForAttempt cfg idx model =
     (if idx = 0 then defaultTimeout cfg
      else (case fallbackTimeouts cfg model of
              Some t \<Rightarrow> t
            | None \<Rightarrow>
                if fallbackDefaultTimeout cfg > 0 then fallbackDefaultTimeout cfg
                else defaultTimeout cfg))"

definition isSuccessStatus :: "int \<Rightarrow> bool" where
  "isSuccessStatus s = (s \<ge> 200 \<and> s < 300)"

definition isNoRetryStatus :: "int \<Rightarrow> int set \<Rightarrow> bool" where
  "isNoRetryStatus s noRetry = (if s \<in> noRetry then True else False)"

text \<open>
  One iteration of the loop of \<open>handleChatCompletion\<close>, for the model at index \<open>idx\<close> of
  \<open>n\<close>: it either returns from the handler or goes on to the next model.
\<close>

datatype iter = Continue hstate | Return hstate

definition attempt ::
  "env \<Rightarrow> proxyConfig \<Rightarrow> request \<Rightarrow> bool \<Rightarrow> nat \<Rightarrow> nat \<Rightarrow> string \<Rightarrow> hstate \<Rightarrow> iter" where
  "attempt e cfg orig stream n idx model c =
     (case marshalPayloadWithModel e (payload c) model of
        (p, None) \<Rightarrow>
          Return (AbortWithStatusJSON e 503 ''invalid json body''
                    (logf LogMarshalFailed (c\<lparr>payload := p\<rparr>)))
      | (p, Some outboundBody) \<Rightarrow>
          (let timeout = timeoutForAttempt cfg idx model in
           case doUpstreamRequest e idx orig cfg outboundBody timeout stream of
             (req, DoError err) \<Rightarrow>
               (let c1 = c\<lparr>payload := p, dispatched := dispatched c @ [req]\<rparr> in
                if err = Canceled then Return (logf LogRequestCanceled c1)
                else Continue (logf (LogUpstreamError model (idx + 1) n err)
                                 (c1\<lparr>lastErr := Some err\<rparr>)))
           | (req, DoResponse resp) \<Rightarrow>
               (let c1 = c\<lparr>payload := p, dispatched := dispatched c @ [req]\<rparr> in
                if stream then
                  (if isSuccessStatus (StatusCode resp) then
                     (let h = stripHopByHopHeaders
                                (copyHeaders (w_header (Writer c1)) (Header resp));
                          w = WriteHeader_call (StatusCode resp)
                                ((Writer c1)\<lparr>w_header := h\<rparr>)
                      in case copyStream e w (Body resp) of
                           (w1, Some cerr) \<Rightarrow>
                             if cerr = Canceled
                             then Return (logf LogStreamCanceled (c1\<lparr>Writer := w1\<rparr>))
                             else Return (logf (LogStreamCopyFailed model cerr)
                                            (c1\<lparr>Writer := w1\<rparr>))
                         | (w1, None) \<Rightarrow> Return (c1\<lparr>Writer := w1\<rparr>))
                   else
                     (case readResponse resp of
                        Inl readErr \<Rightarrow>
                          Continue (logf (LogReadErrorResponseFailed model readErr)
                                      (c1\<lparr>lastErr := Some readErr\<rparr>))
                      | Inr candidate \<Rightarrow>
                          if isNoRetryStatus (status candidate) (noRetryStatuses cfg)
                          then Return (c1\<lparr>Writer := writeResponse e (Writer c1) candidate\<rparr>)
                          else Continue (logf (LogRetrying model (status candidate) (idx + 1) n)
                                           (c1\<lparr>lastResp := Some candidate\<rparr>))))
                else
                  (case readResponse resp of
                     Inl readErr \<Rightarrow>
                       Continue (logf (LogReadResponseFailed model readErr)
                                   (c1\<lparr>lastErr := Some readErr\<rparr>))
                   | Inr candidate \<Rightarrow>
                       if isSuccessStatus (status candidate)
                       then Return (c1\<lparr>Writer := writeResponse e (Writer c1) candidate\<rparr>)
                       else if isNoRetryStatus (status candidate) (noRetryStatuses cfg)
                       then Return (c1\<lparr>Writer := writeResponse e (Writer c1) candidate\<rparr>)
                       else Continue (logf (LogRetrying model (status candidate) (idx + 1) n)
                                        (c1\<lparr>lastResp := Some candidate\<rparr>))))))"

text \<open>The \<open>for idx, model := range attemptModels\<close> loop, from index \<open>idx\<close> on.\<close>

fun attempt_loop ::
  "env \<Rightarrow> proxyConfig \<Rightarrow> request \<Rightarrow> bool \<Rightarrow> nat \<Rightarrow> nat \<Rightarrow> string list \<Rightarrow> hstate \<Rightarrow> iter" where
  "attempt_loop e cfg orig stream n idx [] c = Continue c"
| "attempt_loop e cfg orig stream n idx (model # models) c =
     (case attempt e cfg orig stream n idx model c of
        Return c1 \<Rightarrow> Return c1
      | Continue c1 \<Rightarrow> attempt_loop e cfg orig stream n (idx + 1) models c1)"

text \<open>Step 4 of the handler, after the loop ran through every model.\<close>

definition exhausted :: "env \<Rightarrow> hstate \<Rightarrow> hstate" where
  "exhausted e c =
     (case lastResp c of
        Some r \<Rightarrow> c\<lparr>Writer := writeResponse e (Writer c) r\<rparr>
      | None \<Rightarrow>
          AbortWithStatusJSON e 502 ''upstream error''
            (case lastErr c of
               Some err \<Rightarrow> logf (LogAllAttemptsFailed err) c
             | None \<Rightarrow> c))"

text \<open>Steps 3 and 4 of \<open>handleChatCompletion\<close>: the loop over the models, then the last resort.\<close>

definition retry_models ::
  "env \<Rightarrow> proxyConfig \<Rightarrow> request \<Rightarrow> bool \<Rightarrow> string list \<Rightarrow> hstate \<Rightarrow> hstate" where
  "retry_models e cfg orig stream attemptModels c =
     (case attempt_loop e cfg orig stream (length attemptModels) 0 attemptModels c of
        Return c1 \<Rightarrow> c1
      | Continue c1 \<Rightarrow> exhausted e c1)"

text \<open>
  \<open>handleChatCompletion\<close>. The handler passes \<open>c.Request\<close> on to \<open>doUpstreamRequest\<close>;
  \<open>readRequestPayload\<close> has returned false when it is nil, so the branch for \<open>None\<close> below
  is never taken.
\<close>

definition handleChatCompletion :: "env \<Rightarrow> proxyConfig \<Rightarrow> hstate \<Rightarrow> hstate" where
  "handleChatCompletion e cfg c0 =
     (case readRequestPayload e c0 of
        (c, None) \<Rightarrow> c
      | (c, Some p) \<Rightarrow>
          (let stream = isStreamRequest p;
               modelName = extractModelName p
           in if modelName = [] then AbortWithStatusJSON e 400 ''model is required'' c
              else
                (let attemptModels = buildAttemptModels modelName (fallbackModels cfg) in
                 if length attemptModels = 0
                 then AbortWithStatusJSON e 400 ''no model available'' c
                 else
                   (case Request c of
                      None \<Rightarrow> c
                    | Some orig \<Rightarrow>
                        retry_models e cfg orig stream attemptModels
                          (c\<lparr>payload := p, lastResp := None, lastErr := None\<rparr>)))))"

text \<open>The state an iteration, or the loop, ends in.\<close>

fun iter_state :: "iter \<Rightarrow> hstate" where
  "iter_state (Continue c) = c"
| "iter_state (Return c) = c"

section \<open>Vocabulary of the proofs\<close>

text \<open>
  The state of an attempt once its request has been handed to the client: the model is
  stored in the payload and the request is on the trace.
\<close>

definition sent ::
  "env \<Rightarrow> proxyConfig \<Rightarrow> request \<Rightarrow> bool \<Rightarrow> nat \<Rightarrow> string \<Rightarrow> string \<Rightarrow> hstate \<Rightarrow> hstate" where
  "sent e cfg orig stream idx model b c =
     c\<lparr>payload := (payload c)(''model'' \<mapsto> JString model),
       dispatched := dispatched c @
         [fst (doUpstreamRequest e idx orig cfg b (timeoutForAttempt cfg idx model) stream)]\<rparr>"

text \<open>What is left of the handler after the iteration for index \<open>k\<close> ended as \<open>r\<close>.\<close>

definition after_attempt ::
  "env \<Rightarrow> proxyConfig \<Rightarrow> request \<Rightarrow> bool \<Rightarrow> string list \<Rightarrow> nat \<Rightarrow> iter \<Rightarrow> hstate" where
  "after_attempt e cfg orig stream ms k r =
     (case r of
        Return c' \<Rightarrow> c'
      | Continue c' \<Rightarrow>
          (case attempt_loop e cfg orig stream (length ms) (k + 1) (drop (k + 1) ms) c' of
             Return c'' \<Rightarrow> c''
           | Continue c'' \<Rightarrow> exhausted e c''))"


text \<open>The bytes handed to \<open>Write\<close>, in order.\<close>

fun written :: "writer_call list \<Rightarrow> string" where
  "written [] = []"
| "written (Write d # cs) = d @ written cs"
| "written (WriteHeader s # cs) = written cs"
| "written (Flush # cs) = written cs"

section \<open>Example inputs\<close>

text \<open>
  A configuration as \<open>newProxyConfig\<close> builds it from
  \<open>OPENAI_BASE_URL=https://api.openai.com\<close>, \<open>FALLBACK_MODELS=m2\<close>,
  \<open>FALLBACK_TIMEOUTS=m2=15s\<close> and the defaults (60 s, no-retry status 400).
\<close>

definition cfg_ex :: proxyConfig where
  "cfg_ex =
     \<lparr>targetURL = \<lparr>Scheme = ''https'', Host = ''api.openai.com'', Path = [], RawQuery = []\<rparr>,
      fallbackModels = [''m2''],
      defaultTimeout = 60000000000,
      fallbackDefaultTimeout = 0,
      fallbackTimeouts = [''m2'' \<mapsto> 15000000000],
      noRetryStatuses = {400}\<rparr>"

text \<open>
  The same with \<open>DEFAULT_TIMEOUT=0s\<close> and no per-model timeouts: no attempt has a
  deadline.
\<close>

definition cfg_nodeadline :: proxyConfig where
  "cfg_nodeadline = cfg_ex\<lparr>defaultTimeout := 0, fallbackTimeouts := Map.empty\<rparr>"

text \<open>The same with \<open>FALLBACK_DEFAULT_TIMEOUT=-5s\<close> and no per-model timeouts.\<close>

definition cfg_negative :: proxyConfig where
  "cfg_negative =
     cfg_ex\<lparr>fallbackDefaultTimeout := - 5000000000, fallbackTimeouts := Map.empty\<rparr>"

text \<open>
  An inbound plain-HTTP request (no TLS) with the body \<open>b\<close>, in a fresh gin context.
\<close>

definition request_ex :: "body_script option \<Rightarrow> request" where
  "request_ex b =
     \<lparr>req_Method = ''POST'',
      req_URL = \<lparr>Scheme = [], Host = [], Path = ''/v1/chat/completions'', RawQuery = []\<rparr>,
      req_Host = ''router.local:8080'',
      req_Header = [''Authorization'' \<mapsto> [''Bearer sk-xxx''],
                    ''Connection'' \<mapsto> [''keep-alive''],
                    ''Accept-Encoding'' \<mapsto> [''gzip'']],
      req_Body = b,
      req_TLS = False\<rparr>"

definition ctx_ex :: "body_script option \<Rightarrow> hstate" where
  "ctx_ex b =
     \<lparr>Request = Some (request_ex b),
      Writer = \<lparr>w_header = Map.empty, w_calls = [], w_sent_header = None\<rparr>,
      aborted = False,
      logs = [],
      dispatched = [],
      payload = Map.empty,
      lastResp = None,
      lastErr = None\<rparr>"

definition header_ex :: http_header where
  "header_ex =
     [''Content-Type'' \<mapsto> [''application/json''],
      ''Content-Length'' \<mapsto> [''999''],
      ''Transfer-Encoding'' \<mapsto> [''chunked'']]"

definition response_ex :: "int \<Rightarrow> body_script \<Rightarrow> upstream_result" where
  "response_ex s b = DoResponse \<lparr>StatusCode = s, Header = header_ex, Body = b\<rparr>"

definition payload_plain :: payload where
  "payload_plain = [''model'' \<mapsto> JString ''m1'']"

definition payload_stream :: payload where
  "payload_stream = [''model'' \<mapsto> JString ''m1'', ''stream'' \<mapsto> JBool True]"

text \<open>
  An environment whose JSON parser knows two request bodies, whose serializer writes the
  model of a payload, whose upstream answers as \<open>up\<close> says, and where no write to the
  caller fails.
\<close>

definition env_ex :: "(nat \<Rightarrow> upstream_result) \<Rightarrow> env" where
  \<open>env_ex up =
     \<lparr>json_Unmarshal =
        (\<lambda>b. if b = ''{"model":"m1"}'' then Some payload_plain
             else if b = ''{"model":"m1","stream":true}'' then Some payload_stream
             else None),
      json_Marshal =
        (\<lambda>p. Some (case p ''model'' of
                      Some (JString m) \<Rightarrow> ''{"model":"'' @ m @ ''"}''
                    | _ \<Rightarrow> ''{}'')),
      client_Do = up,
      write_result = (\<lambda>n. None)\<rparr>\<close>

definition body_plain :: "body_script option" where
  \<open>body_plain = Some (Final ''{"model":"m1"}'' EOF)\<close>

definition body_stream :: "body_script option" where
  \<open>body_stream = Some (Chunk ''{"model":"m1",'' (Final ''"stream":true}'' EOF))\<close>

text \<open>Upstreams, by what they answer to the attempt of each index.\<close>

definition up_terminal :: "nat \<Rightarrow> upstream_result" where
  \<open>up_terminal i =
     (if i = 0 then response_ex 400 (Chunk ''bad '' (Final ''request'' EOF))
      else response_ex 200 (Final ''{"id":"x"}'' EOF))\<close>

definition up_fallback :: "nat \<Rightarrow> upstream_result" where
  \<open>up_fallback i =
     (if i = 0 then response_ex 500 (Final ''busy'' EOF)
      else response_ex 200 (Final ''{"id":"x"}'' EOF))\<close>


definition up_retryable :: "nat \<Rightarrow> upstream_result" where
  "up_retryable i =
     (if i = 0 then response_ex 500 (Final ''first'' EOF)
      else response_ex 503 (Final ''second'' EOF))"





definition up_stream_breaks :: "nat \<Rightarrow> upstream_result" where
  "up_stream_breaks i =
     (if i = 0
      then response_ex 200 (Chunk ''a'' (Chunk ''b'' (Final [] (OtherError ''connection reset''))))
      else response_ex 200 (Final ''c'' EOF))"

definition up_canceled :: "nat \<Rightarrow> upstream_result" where
  "up_canceled i =
     (if i = 0 then DoError (OtherError ''dial tcp: i/o timeout'') else DoError Canceled)"

text \<open>
  The protocol of the inbound request, as the specification means it for
  \<open>X-Forwarded-Proto\<close>: \<open>https\<close> when the caller's connection is TLS, \<open>http\<close> otherwise.
\<close>

definition inbound_scheme :: "request \<Rightarrow> string" where
  "inbound_scheme r = (if req_TLS r then ''https'' else ''http'')"

section \<open>White space and the planner\<close>

lemma lead_width_le: "lead_width ps s \<le> length s"
  by (auto simp: lead_width_def find_Some_iff prefix_length_le split: option.splits)

lemma trim_lead_fix: "lead_width ps s = 0 \<Longrightarrow> trim_lead ps s = s"
  by (simp add: trim_lead.simps)

lemma lead_width_trim_lead: "lead_width ps (trim_lead ps s) = 0"
proof (induction ps s rule: trim_lead.induct)
  case (1 ps s)
  show ?case
  proof (cases "lead_width ps s = 0")
    case True
    then show ?thesis by (simp add: trim_lead.simps)
  next
    case False
    with "1" show ?thesis by (subst trim_lead.simps) simp
  qed
qed

lemma trim_lead_suffix: "suffix (trim_lead ps s) s"
proof (induction ps s rule: trim_lead.induct)
  case (1 ps s)
  show ?case
  proof (cases "lead_width ps s = 0")
    case True
    then show ?thesis by (simp add: trim_lead.simps)
  next
    case False
    with "1" have "suffix (trim_lead ps (drop (lead_width ps s) s)) (drop (lead_width ps s) s)"
      by simp
    moreover have "suffix (drop (lead_width ps s) s) s" by (rule suffix_drop)
    ultimately have "suffix (trim_lead ps (drop (lead_width ps s) s)) s"
      by (rule suffix_order.trans)
    with False show ?thesis by (subst trim_lead.simps) simp
  qed
qed

lemma lead_width_zero_iff:
  assumes "[] \<notin> set ps"
  shows "lead_width ps s = 0 \<longleftrightarrow> (\<forall>p \<in> set ps. \<not> prefix p s)"
proof (cases "find (\<lambda>p. prefix p s) ps")
  case None
  then have "\<forall>p \<in> set ps. \<not> prefix p s" by (auto simp: find_None_iff)
  with None show ?thesis by (simp add: lead_width_def)
next
  case (Some p)
  then have "p \<in> set ps" and "prefix p s"
    by (auto simp: find_Some_iff)
  with assms Some show ?thesis
    by (auto simp: lead_width_def)
qed

text \<open>A prefix of a string that starts with no white space starts with none either.\<close>

lemma lead_width_prefix:
  assumes "[] \<notin> set ps" and "lead_width ps t = 0" and "prefix u t"
  shows "lead_width ps u = 0"
  using assms by (meson lead_width_zero_iff prefix_order.trans)

lemma nil_notin_spaces: "[] \<notin> set unicode_space_encodings"
  by (simp add: unicode_space_encodings_def)

lemma TrimSpace_prefix: "prefix (TrimSpace s) (trim_lead unicode_space_encodings s)"
  unfolding TrimSpace_def
  using trim_lead_suffix [of "map rev unicode_space_encodings"
      "rev (trim_lead unicode_space_encodings s)"]
  by (simp add: suffix_to_prefix)

lemma lead_width_TrimSpace: "lead_width unicode_space_encodings (TrimSpace s) = 0"
  by (rule lead_width_prefix [OF nil_notin_spaces lead_width_trim_lead TrimSpace_prefix])

text \<open>Trimming a trimmed string changes nothing.\<close>

lemma TrimSpace_idem: "TrimSpace (TrimSpace s) = TrimSpace s"
proof -
  have a: "trim_lead unicode_space_encodings (TrimSpace s) = TrimSpace s"
    by (rule trim_lead_fix [OF lead_width_TrimSpace])
  have "lead_width (map rev unicode_space_encodings) (rev (TrimSpace s)) = 0"
    unfolding TrimSpace_def by (simp add: lead_width_trim_lead)
  then have b: "trim_lead (map rev unicode_space_encodings) (rev (TrimSpace s)) = rev (TrimSpace s)"
    by (rule trim_lead_fix)
  show ?thesis
    by (subst TrimSpace_def) (simp add: a b)
qed

lemma filter_notin_snoc:
  "filter (\<lambda>y. y \<notin> set (out @ [m])) xs = filter (\<lambda>y. y \<noteq> m) (filter (\<lambda>y. y \<notin> set out) xs)"
  by (induction xs) auto

text \<open>
  The loop of the planner, from any state in which \<open>seen\<close> holds exactly the models
  of \<open>out\<close>.
\<close>

lemma foldl_add:
  "fst st = set (snd st) \<Longrightarrow>
   snd (foldl add st xs) =
     snd st @ dedup_first (filter (\<lambda>m. m \<notin> set (snd st))
                (filter (\<lambda>m. m \<noteq> []) (map TrimSpace xs)))"
proof (induction xs arbitrary: st)
  case Nil
  then show ?case by simp
next
  case (Cons x xs)
  let ?m = "TrimSpace x"
  show ?case
  proof (cases "?m = [] \<or> ?m \<in> fst st")
    case True
    then have "add st x = st" by (auto simp: add_def Let_def)
    with True Cons show ?thesis by auto
  next
    case False
    then have eq: "add st x = (insert ?m (fst st), snd st @ [?m])"
      by (auto simp: add_def Let_def)
    have inv: "fst (add st x) = set (snd (add st x))" using Cons.prems by (simp add: eq)
    from Cons.IH [OF inv] False Cons.prems show ?thesis
      by (simp add: eq filter_notin_snoc conj_commute conj_left_commute)
  qed
qed

lemma buildAttemptModels_plan: "buildAttemptModels primary fallbacks = plan_spec primary fallbacks"
proof -
  have "foldl add (add ({}, []) primary) fallbacks = foldl add ({}, []) (primary # fallbacks)"
    by simp
  then show ?thesis
    unfolding buildAttemptModels_def plan_spec_def
    using foldl_add [of "({}, [])" "primary # fallbacks"] by simp
qed

lemma extractModelName_trimmed: "TrimSpace (extractModelName p) = extractModelName p"
proof (cases "p ''model''")
  case None
  then have "extractModelName p = []" by (simp add: extractModelName_def)
  moreover have "TrimSpace [] = []"
    by (simp add: TrimSpace_def trim_lead.simps lead_width_def unicode_space_encodings_def)
  ultimately show ?thesis by simp
next
  case (Some v)
  have nil: "TrimSpace [] = []"
    by (simp add: TrimSpace_def trim_lead.simps lead_width_def unicode_space_encodings_def)
  from Some show ?thesis
    by (cases v) (simp_all add: extractModelName_def TrimSpace_idem nil)
qed

lemma buildAttemptModels_head:
  assumes "TrimSpace m = m" and "m \<noteq> []"
  shows "\<exists>rest. buildAttemptModels m fbs = m # rest"
proof -
  from assms have "add ({}, []) m = ({m}, [m])" by (simp add: add_def)
  then show ?thesis
    unfolding buildAttemptModels_def using foldl_add [of "({m}, [m])" fbs] by simp
qed

lemma readRequestPayload_Some:
  assumes "readRequestPayload e c0 = (c, Some p)"
  shows "c = c0 \<and> (\<exists>orig. Request c0 = Some orig)"
  using assms
  by (auto simp: readRequestPayload_def split: option.splits prod.splits if_splits)

section \<open>The claims about the planner and the timeouts\<close>

text \<open>
  Claim C6: for every primary model and every list of fallbacks, the planned attempts are
  the primary followed by the fallbacks, each entry trimmed, the empty entries dropped,
  and of equal entries (compared byte by byte) only the first kept; the primary
  \<open>gpt-4o\<close> with the fallbacks \<open>gpt-4o\<close>, \<open>gpt-4o-mini\<close>, \<open>gpt-4o\<close> gives \<open>gpt-4o\<close>,
  \<open>gpt-4o-mini\<close>. The planner is a function of its two arguments: it reads them and
  returns the list, and changes nothing else.
\<close>

theorem planner_refines_spec:
  "buildAttemptModels primary fallbacks =
     dedup_first (filter (\<lambda>m. m \<noteq> []) (map TrimSpace (primary # fallbacks)))
   \<and> buildAttemptModels ''gpt-4o'' [''gpt-4o'', ''gpt-4o-mini'', ''gpt-4o'']
       = [''gpt-4o'', ''gpt-4o-mini'']"
proof
  show "buildAttemptModels primary fallbacks =
     dedup_first (filter (\<lambda>m. m \<noteq> []) (map TrimSpace (primary # fallbacks)))"
    using buildAttemptModels_plan [of primary fallbacks] by (simp add: plan_spec_def)
next
  show "buildAttemptModels ''gpt-4o'' [''gpt-4o'', ''gpt-4o-mini'', ''gpt-4o'']
       = [''gpt-4o'', ''gpt-4o-mini'']"
    by code_simp
qed

theorem planner_refines_spec_witness:
  "buildAttemptModels '' m1 '' [''m2'', [], ''m1'', ''m3 '', ''m2'']
     = [''m1'', ''m2'', ''m3'']"
proof -
  have "dedup_first (filter (\<lambda>m. m \<noteq> [])
          (map TrimSpace ['' m1 '', ''m2'', [], ''m1'', ''m3 '', ''m2'']))
        = [''m1'', ''m2'', ''m3'']"
    by code_simp
  with planner_refines_spec [of "'' m1 ''" "[''m2'', [], ''m1'', ''m3 '', ''m2'']"]
  show ?thesis by simp
qed

text \<open>
  Claim C5, as amended: at attempt index 0 the timeout is the global default, whatever
  the fallback timeout map holds for the model; at an index of 1 or more it is the entry
  of the model in the fallback timeout map if there is one, otherwise the fallback-wide
  default if that is positive, otherwise the global default.
\<close>

theorem timeout_resolution:
  "timeoutForAttempt cfg 0 model = defaultTimeout cfg
   \<and> (idx \<ge> 1 \<longrightarrow> fallbackTimeouts cfg model = Some t \<longrightarrow>
        timeoutForAttempt cfg idx model = t)
   \<and> (idx \<ge> 1 \<longrightarrow> fallbackTimeouts cfg model = None \<longrightarrow> fallbackDefaultTimeout cfg > 0 \<longrightarrow>
        timeoutForAttempt cfg idx model = fallbackDefaultTimeout cfg)
   \<and> (idx \<ge> 1 \<longrightarrow> fallbackTimeouts cfg model = None \<longrightarrow> \<not> fallbackDefaultTimeout cfg > 0 \<longrightarrow>
        timeoutForAttempt cfg idx model = defaultTimeout cfg)"
  by (simp add: timeoutForAttempt_def)

theorem timeout_resolution_witness:
  "timeoutForAttempt cfg_ex 0 ''m2'' = 60000000000
   \<and> timeoutForAttempt cfg_ex 1 ''m2'' = 15000000000
   \<and> timeoutForAttempt (cfg_ex\<lparr>fallbackDefaultTimeout := 30000000000\<rparr>) 2 ''m3'' = 30000000000
   \<and> timeoutForAttempt cfg_ex 2 ''m3'' = 60000000000"
  using timeout_resolution [of cfg_ex "''m2''" 1 15000000000]
    timeout_resolution [of "cfg_ex\<lparr>fallbackDefaultTimeout := 30000000000\<rparr>" "''m3''" 2]
    timeout_resolution [of cfg_ex "''m3''" 2]
  by (simp add: cfg_ex_def)

text \<open>
  Claim C5 as the specification states it takes the fallback-wide default whenever it
  is not zero. With \<open>FALLBACK_DEFAULT_TIMEOUT=-5s\<close> the fallback-wide default is set and
  not zero, and the attempt at index 1 runs with the global default.
\<close>

theorem timeout_nonzero_counterexample:
  "fallbackTimeouts cfg_negative ''m2'' = None
   \<and> fallbackDefaultTimeout cfg_negative \<noteq> 0
   \<and> timeoutForAttempt cfg_negative 1 ''m2'' \<noteq> fallbackDefaultTimeout cfg_negative
   \<and> timeoutForAttempt cfg_negative 1 ''m2'' = defaultTimeout cfg_negative"
  by (simp add: cfg_negative_def cfg_ex_def timeoutForAttempt_def)

section \<open>One attempt, and the loop over the models\<close>

lemma logf_fields [simp]:
  "Request (logf l c) = Request c" "Writer (logf l c) = Writer c"
  "aborted (logf l c) = aborted c" "dispatched (logf l c) = dispatched c"
  "payload (logf l c) = payload c" "lastResp (logf l c) = lastResp c"
  "lastErr (logf l c) = lastErr c" "logs (logf l c) = logs c @ [l]"
  by (simp_all add: logf_def)

lemma Abort_fields [simp]:
  "Request (AbortWithStatusJSON e code msg c) = Request c"
  "aborted (AbortWithStatusJSON e code msg c) = True"
  "dispatched (AbortWithStatusJSON e code msg c) = dispatched c"
  "logs (AbortWithStatusJSON e code msg c) = logs c"
  "w_calls (Writer (AbortWithStatusJSON e code msg c)) =
     w_calls (Writer c) @ [WriteHeader code, Write (error_json msg)]"
  by (simp_all add: AbortWithStatusJSON_def Let_def Write_call_def WriteHeader_call_def)

lemma attempt_marshal_None:
  assumes "json_Marshal e ((payload c)(''model'' \<mapsto> JString model)) = None"
  shows "\<exists>c'. attempt e cfg orig stream n idx model c = Return c' \<and> dispatched c' = dispatched c"
  using assms by (simp add: attempt_def marshalPayloadWithModel_def)

lemma attempt_dispatched:
  assumes "json_Marshal e ((payload c)(''model'' \<mapsto> JString model)) = Some b"
  shows "dispatched (iter_state (attempt e cfg orig stream n idx model c)) =
           dispatched c @ [fst (doUpstreamRequest e idx orig cfg b (timeoutForAttempt cfg idx model) stream)]"
  using assms
  by (simp add: attempt_def marshalPayloadWithModel_def Let_def
      split: prod.splits upstream_result.splits sum.splits option.splits)

lemma attempt_Continue:
  assumes "attempt e cfg orig stream n idx model c = Continue c'"
  shows "Writer c' = Writer c \<and> aborted c' = aborted c \<and> Request c' = Request c
         \<and> length (dispatched c') = Suc (length (dispatched c))"
  using assms
  by (auto simp: attempt_def marshalPayloadWithModel_def Let_def
      split: prod.splits upstream_result.splits sum.splits option.splits if_splits)


lemma doUpstreamRequest_snd:
  "snd (doUpstreamRequest e idx orig cfg b timeout stream) =
     (case client_Do e idx of
        DoError err \<Rightarrow> DoError err
      | DoResponse resp \<Rightarrow>
          if \<not> stream \<and> timeout > 0 then DoResponse (resp\<lparr>Body := canceled_body\<rparr>)
          else DoResponse resp)"
  by (simp add: doUpstreamRequest_def Let_def)


lemma sent_fields [simp]:
  "Request (sent e cfg orig stream idx model b c) = Request c"
  "Writer (sent e cfg orig stream idx model b c) = Writer c"
  "aborted (sent e cfg orig stream idx model b c) = aborted c"
  "logs (sent e cfg orig stream idx model b c) = logs c"
  "lastResp (sent e cfg orig stream idx model b c) = lastResp c"
  "lastErr (sent e cfg orig stream idx model b c) = lastErr c"
  "length (dispatched (sent e cfg orig stream idx model b c)) = Suc (length (dispatched c))"
  by (simp_all add: sent_def)

lemma attempt_DoError:
  assumes "json_Marshal e ((payload c)(''model'' \<mapsto> JString model)) = Some b"
    and "client_Do e idx = DoError err"
  shows "attempt e cfg orig stream n idx model c =
     (if err = Canceled then Return (logf LogRequestCanceled (sent e cfg orig stream idx model b c))
      else Continue (logf (LogUpstreamError model (idx + 1) n err)
                       ((sent e cfg orig stream idx model b c)\<lparr>lastErr := Some err\<rparr>)))"
proof -
  have snd: "snd (doUpstreamRequest e idx orig cfg b (timeoutForAttempt cfg idx model) stream)
      = DoError err"
    using assms(2) by (simp add: doUpstreamRequest_snd)
  obtain req where dr: "doUpstreamRequest e idx orig cfg b (timeoutForAttempt cfg idx model) stream
      = (req, DoError err)"
    using snd by (cases "doUpstreamRequest e idx orig cfg b (timeoutForAttempt cfg idx model) stream")
      simp
  then have req: "req = fst (doUpstreamRequest e idx orig cfg b
      (timeoutForAttempt cfg idx model) stream)" by simp
  show ?thesis
    using assms(1)
    by (simp add: attempt_def marshalPayloadWithModel_def Let_def dr sent_def req [symmetric])
qed


lemma attempt_streamed:
  assumes "json_Marshal e ((payload c)(''model'' \<mapsto> JString model)) = Some b"
    and "client_Do e idx = DoResponse resp"
    and "stream" and "isSuccessStatus (StatusCode resp)"
  shows "attempt e cfg orig stream n idx model c =
     Return
       (let w = WriteHeader_call (StatusCode resp)
                  ((Writer c)\<lparr>w_header :=
                      stripHopByHopHeaders (copyHeaders (w_header (Writer c)) (Header resp))\<rparr>);
            r = copyStream e w (Body resp);
            c1 = (sent e cfg orig stream idx model b c)\<lparr>Writer := fst r\<rparr>
        in case snd r of
             None \<Rightarrow> c1
           | Some cerr \<Rightarrow>
               logf (if cerr = Canceled then LogStreamCanceled
                     else LogStreamCopyFailed model cerr) c1)"
proof -
  have snd: "snd (doUpstreamRequest e idx orig cfg b (timeoutForAttempt cfg idx model) stream)
      = DoResponse resp"
    using assms(2) assms(3) by (simp add: doUpstreamRequest_snd)
  obtain req where dr: "doUpstreamRequest e idx orig cfg b (timeoutForAttempt cfg idx model) stream
      = (req, DoResponse resp)"
    using snd by (cases "doUpstreamRequest e idx orig cfg b (timeoutForAttempt cfg idx model) stream")
      simp
  then have req: "req = fst (doUpstreamRequest e idx orig cfg b
      (timeoutForAttempt cfg idx model) stream)" by simp
  from assms(3) have s: "stream = True" by simp
  show ?thesis
    unfolding s using assms(1) assms(4)
    by (auto simp: attempt_def marshalPayloadWithModel_def Let_def dr [unfolded s] sent_def
        req [unfolded s, symmetric] split: prod.splits option.splits)
qed

lemma attempt_Return_length:
  assumes "attempt e cfg orig stream n idx model c = Return c'"
  shows "length (dispatched c') \<le> Suc (length (dispatched c))"
proof (cases "json_Marshal e ((payload c)(''model'' \<mapsto> JString model))")
  case None
  from attempt_marshal_None [OF None, of cfg orig stream n idx] assms show ?thesis by auto
next
  case (Some b)
  from attempt_dispatched [OF Some, of cfg orig stream n idx] assms show ?thesis by simp
qed

lemma loop_reaches:
  assumes "length (dispatched c) = idx" and "idx \<le> k"
    and "k < length (dispatched (iter_state (attempt_loop e cfg orig stream n idx ms c)))"
  shows "\<exists>ck b. k - idx < length ms \<and> Writer ck = Writer c \<and> aborted ck = aborted c
           \<and> length (dispatched ck) = k
           \<and> json_Marshal e ((payload ck)(''model'' \<mapsto> JString (ms ! (k - idx)))) = Some b
           \<and> attempt_loop e cfg orig stream n idx ms c =
               (case attempt e cfg orig stream n k (ms ! (k - idx)) ck of
                  Return c' \<Rightarrow> Return c'
                | Continue c' \<Rightarrow>
                    attempt_loop e cfg orig stream n (k + 1) (drop (k - idx + 1) ms) c')"
  using assms
proof (induction ms arbitrary: idx c)
  case Nil
  then show ?case by simp
next
  case (Cons m ms)
  show ?case
  proof (cases "k = idx")
    case True
    have "\<exists>b. json_Marshal e ((payload c)(''model'' \<mapsto> JString m)) = Some b"
    proof (rule ccontr)
      assume "\<not> ?thesis"
      then have "json_Marshal e ((payload c)(''model'' \<mapsto> JString m)) = None" by simp
      from attempt_marshal_None [OF this, of cfg orig stream n idx]
      obtain c' where "attempt e cfg orig stream n idx m c = Return c'"
        and "dispatched c' = dispatched c" by blast
      with Cons.prems True show False by simp
    qed
    then obtain b where b: "json_Marshal e ((payload c)(''model'' \<mapsto> JString m)) = Some b" ..
    have "attempt_loop e cfg orig stream n idx (m # ms) c =
               (case attempt e cfg orig stream n idx m c of
                  Return c' \<Rightarrow> Return c'
                | Continue c' \<Rightarrow> attempt_loop e cfg orig stream n (idx + 1) ms c')"
      by simp
    with b True Cons.prems(1) have
      "k - idx < length (m # ms) \<and> Writer c = Writer c \<and> aborted c = aborted c
           \<and> length (dispatched c) = k
           \<and> json_Marshal e ((payload c)(''model'' \<mapsto> JString ((m # ms) ! (k - idx)))) = Some b
           \<and> attempt_loop e cfg orig stream n idx (m # ms) c =
               (case attempt e cfg orig stream n k ((m # ms) ! (k - idx)) c of
                  Return c' \<Rightarrow> Return c'
                | Continue c' \<Rightarrow>
                    attempt_loop e cfg orig stream n (k + 1) (drop (k - idx + 1) (m # ms)) c')"
      by (simp cong: iter.case_cong)
    then show ?thesis by blast
  next
    case False
    with Cons.prems have lt: "idx < k" by simp
    show ?thesis
    proof (cases "attempt e cfg orig stream n idx m c")
      case (Return c1)
      from attempt_Return_length [OF Return] Cons.prems(1) have "length (dispatched c1) \<le> Suc idx"
        by simp
      with Return Cons.prems lt show ?thesis by simp
    next
      case (Continue c1)
      from attempt_Continue [OF Continue] Cons.prems(1)
      have c1: "Writer c1 = Writer c" "aborted c1 = aborted c" "length (dispatched c1) = Suc idx"
        by simp_all
      from Continue Cons.prems(3)
      have reach: "k < length (dispatched (iter_state (attempt_loop e cfg orig stream n (Suc idx) ms c1)))"
        by simp
      moreover from lt have "Suc idx \<le> k" by simp
      ultimately obtain ck b where ck: "k - Suc idx < length ms" "Writer ck = Writer c1"
        "aborted ck = aborted c1" "length (dispatched ck) = k"
        "json_Marshal e ((payload ck)(''model'' \<mapsto> JString (ms ! (k - Suc idx)))) = Some b"
        "attempt_loop e cfg orig stream n (Suc idx) ms c1 =
           (case attempt e cfg orig stream n k (ms ! (k - Suc idx)) ck of
              Return c' \<Rightarrow> Return c'
            | Continue c' \<Rightarrow>
                attempt_loop e cfg orig stream n (k + 1) (drop (k - Suc idx + 1) ms) c')"
        using Cons.IH [OF c1(3)] by blast
      from lt have nth: "(m # ms) ! (k - idx) = ms ! (k - Suc idx)"
        by (simp add: nth_Cons')
      from lt have dr: "drop (k - idx + 1) (m # ms) = drop (k - Suc idx + 1) ms"
        by (simp add: Suc_diff_Suc)
      from lt ck(1) have len: "k - idx < length (m # ms)" by simp
      from ck c1 Continue len have
        "k - idx < length (m # ms) \<and> Writer ck = Writer c \<and> aborted ck = aborted c
           \<and> length (dispatched ck) = k
           \<and> json_Marshal e ((payload ck)(''model'' \<mapsto> JString ((m # ms) ! (k - idx)))) = Some b
           \<and> attempt_loop e cfg orig stream n idx (m # ms) c =
               (case attempt e cfg orig stream n k ((m # ms) ! (k - idx)) ck of
                  Return c' \<Rightarrow> Return c'
                | Continue c' \<Rightarrow>
                    attempt_loop e cfg orig stream n (k + 1) (drop (k - idx + 1) (m # ms)) c')"
        by (simp only: nth dr) simp
      then show ?thesis by blast
    qed
  qed
qed

lemma exhausted_dispatched [simp]: "dispatched (exhausted e c) = dispatched c"
  by (simp add: exhausted_def split: option.splits)

lemma readRequestPayload_dispatched:
  "dispatched (fst (readRequestPayload e c0)) = dispatched c0"
  by (simp add: readRequestPayload_def split: option.splits prod.splits)

lemma retry_models_dispatched:
  "dispatched (retry_models e cfg orig stream ms c) =
     dispatched (iter_state (attempt_loop e cfg orig stream (length ms) 0 ms c))"
  by (simp add: retry_models_def split: iter.splits)

lemma handler_reaches:
  assumes "dispatched c0 = []"
    and "k < length (dispatched (handleChatCompletion e cfg c0))"
  shows "\<exists>p orig ck b.
           readRequestPayload e c0 = (c0, Some p) \<and> Request c0 = Some orig
           \<and> extractModelName p \<noteq> []
           \<and> k < length (buildAttemptModels (extractModelName p) (fallbackModels cfg))
           \<and> Writer ck = Writer c0 \<and> aborted ck = aborted c0 \<and> length (dispatched ck) = k
           \<and> json_Marshal e ((payload ck)(''model'' \<mapsto>
                 JString (buildAttemptModels (extractModelName p) (fallbackModels cfg) ! k))) = Some b
           \<and> handleChatCompletion e cfg c0 =
                after_attempt e cfg orig (isStreamRequest p)
                  (buildAttemptModels (extractModelName p) (fallbackModels cfg)) k
                  (attempt e cfg orig (isStreamRequest p)
                     (length (buildAttemptModels (extractModelName p) (fallbackModels cfg))) k
                     (buildAttemptModels (extractModelName p) (fallbackModels cfg) ! k) ck)"
proof (cases "readRequestPayload e c0")
  case (Pair c r)
  show ?thesis
  proof (cases r)
    case None
    with Pair have "handleChatCompletion e cfg c0 = c" by (simp add: handleChatCompletion_def)
    moreover from Pair have "dispatched c = dispatched c0"
      using readRequestPayload_dispatched [of e c0] by simp
    ultimately show ?thesis using assms by simp
  next
    case (Some p)
    with Pair have rd: "readRequestPayload e c0 = (c, Some p)" by simp
    from readRequestPayload_Some [OF rd] obtain orig where c: "c = c0" and orig: "Request c0 = Some orig"
      by blast
    let ?ms = "buildAttemptModels (extractModelName p) (fallbackModels cfg)"
    let ?c = "c0\<lparr>payload := p, lastResp := None, lastErr := None\<rparr>"
    have ne: "extractModelName p \<noteq> []"
    proof
      assume "extractModelName p = []"
      with rd c have "dispatched (handleChatCompletion e cfg c0) = dispatched c0"
        by (simp add: handleChatCompletion_def)
      with assms show False by simp
    qed
    have ms: "?ms \<noteq> []"
    proof
      assume "?ms = []"
      with rd c ne have "dispatched (handleChatCompletion e cfg c0) = dispatched c0"
        by (simp add: handleChatCompletion_def)
      with assms show False by simp
    qed
    from rd c ne ms orig have h: "handleChatCompletion e cfg c0 =
        retry_models e cfg orig (isStreamRequest p) ?ms ?c"
      by (simp add: handleChatCompletion_def Let_def)
    with assms(2) have "k < length (dispatched (iter_state
        (attempt_loop e cfg orig (isStreamRequest p) (length ?ms) 0 ?ms ?c)))"
      by (simp add: retry_models_dispatched)
    moreover from assms(1) have "length (dispatched ?c) = 0" by simp
    ultimately obtain ck b where ck: "k - 0 < length ?ms" "Writer ck = Writer ?c"
      "aborted ck = aborted ?c" "length (dispatched ck) = k"
      "json_Marshal e ((payload ck)(''model'' \<mapsto> JString (?ms ! (k - 0)))) = Some b"
      "attempt_loop e cfg orig (isStreamRequest p) (length ?ms) 0 ?ms ?c =
         (case attempt e cfg orig (isStreamRequest p) (length ?ms) k (?ms ! (k - 0)) ck of
            Return c' \<Rightarrow> Return c'
          | Continue c' \<Rightarrow>
              attempt_loop e cfg orig (isStreamRequest p) (length ?ms) (k + 1)
                (drop (k - 0 + 1) ?ms) c')"
      using loop_reaches [of ?c 0 k e cfg orig "isStreamRequest p" "length ?ms" ?ms] by blast
    have "handleChatCompletion e cfg c0 =
            after_attempt e cfg orig (isStreamRequest p) ?ms k
              (attempt e cfg orig (isStreamRequest p) (length ?ms) k (?ms ! k) ck)"
      using ck(6) by (simp add: h retry_models_def after_attempt_def split: iter.splits)
    with rd c orig ne ck show ?thesis by auto
  qed
qed

lemma cloneHeader_id [simp]: "cloneHeader h = h"
  by (rule ext) (simp add: cloneHeader_def copyHeaders_def split: option.splits)


lemma attempt_mono:
  "length (dispatched c) \<le> length (dispatched (iter_state (attempt e cfg orig stream n idx model c)))"
proof (cases "json_Marshal e ((payload c)(''model'' \<mapsto> JString model))")
  case None
  from attempt_marshal_None [OF None, of cfg orig stream n idx] show ?thesis by auto
next
  case (Some b)
  from attempt_dispatched [OF Some, of cfg orig stream n idx] show ?thesis by simp
qed

lemma loop_mono:
  "length (dispatched c) \<le> length (dispatched (iter_state (attempt_loop e cfg orig stream n idx ms c)))"
proof (induction ms arbitrary: idx c)
  case Nil
  then show ?case by simp
next
  case (Cons m ms)
  show ?case
  proof (cases "attempt e cfg orig stream n idx m c")
    case (Return c1)
    with attempt_mono [of c e cfg orig stream n idx m] show ?thesis by simp
  next
    case (Continue c1)
    with attempt_mono [of c e cfg orig stream n idx m]
    have "length (dispatched c) \<le> length (dispatched c1)" by simp
    also have "\<dots> \<le> length (dispatched (iter_state (attempt_loop e cfg orig stream n (Suc idx) ms c1)))"
      by (rule Cons.IH)
    finally show ?thesis using Continue by simp
  qed
qed

lemma after_attempt_mono:
  "length (dispatched (iter_state r)) \<le> length (dispatched (after_attempt e cfg orig stream ms k r))"
proof (cases r)
  case (Return c')
  then show ?thesis by (simp add: after_attempt_def)
next
  case (Continue c')
  with loop_mono [of c' e cfg orig stream "length ms" "k + 1" "drop (k + 1) ms"]
  show ?thesis by (auto simp: after_attempt_def split: iter.splits)
qed

lemma after_attempt_step:
  assumes "Suc k < length ms"
  shows "after_attempt e cfg orig stream ms k (Continue c') =
           after_attempt e cfg orig stream ms (Suc k)
             (attempt e cfg orig stream (length ms) (Suc k) (ms ! Suc k) c')"
proof -
  from assms have "drop (Suc k) ms = ms ! Suc k # drop (Suc (Suc k)) ms"
    by (simp add: Cons_nth_drop_Suc)
  then show ?thesis
    by (simp add: after_attempt_def split: iter.splits)
qed


section \<open>Streams and headers\<close>

lemma ReadAll_Chunk_fst [simp]: "fst (ReadAll (Chunk d rest)) = d @ fst (ReadAll rest)"
  by (simp split: prod.splits)

lemma send_header_fields [simp]:
  "send_header (w\<lparr>w_calls := cs\<rparr>) = send_header w"
  "w_sent_header w = Some h \<Longrightarrow> send_header w = Some h"
  "w_sent_header w = None \<Longrightarrow> send_header w = Some (w_header w)"
  by (simp_all add: send_header_def split: option.splits)

lemma Write_call_fields [simp]:
  "w_calls (fst (Write_call e w d)) = w_calls w @ [Write d]"
  "w_header (fst (Write_call e w d)) = w_header w"
  "w_sent_header (fst (Write_call e w d)) = send_header w"
  "snd (Write_call e w d) = write_result e (length (filter is_Write (w_calls w)))"
  by (simp_all add: Write_call_def)

lemma Flush_call_fields [simp]:
  "w_calls (Flush_call w) = w_calls w @ [Flush]"
  "w_header (Flush_call w) = w_header w"
  "w_sent_header (Flush_call w) = send_header w"
  by (simp_all add: Flush_call_def)

lemma WriteHeader_call_fields [simp]:
  "w_calls (WriteHeader_call code w) = w_calls w @ [WriteHeader code]"
  "w_header (WriteHeader_call code w) = w_header w"
  "w_sent_header (WriteHeader_call code w) = send_header w"
  by (simp_all add: WriteHeader_call_def)

lemma send_header_idem:
  "w_sent_header w' = send_header w \<Longrightarrow> send_header w' = send_header w"
  by (cases "w_sent_header w") (simp_all add: send_header_def)

text \<open>
  What \<open>copyStream\<close> does to the writer: it adds calls to \<open>Write\<close> and \<open>Flush\<close> only, the
  bytes it hands over are a prefix of the body, and it leaves the header map and a header
  already sent as they are.
\<close>

lemma copyStream_calls:
  "\<exists>calls. w_calls (fst (copyStream e w b)) = w_calls w @ calls
      \<and> (\<forall>x \<in> set calls. x = Flush \<or> is_Write x)
      \<and> prefix (written calls) (fst (ReadAll b))
      \<and> w_header (fst (copyStream e w b)) = w_header w
      \<and> (\<forall>h. w_sent_header w = Some h \<longrightarrow> w_sent_header (fst (copyStream e w b)) = Some h)"
proof (induction b arbitrary: w)
  case (Chunk d rest)
  show ?case
  proof (cases "d = []")
    case True
    with Chunk [of w] show ?thesis by (simp del: ReadAll.simps)
  next
    case False
    obtain w1 werr where wc: "Write_call e w d = (w1, werr)" by (cases "Write_call e w d")
    then have w1: "w_calls w1 = w_calls w @ [Write d]" "w_header w1 = w_header w"
      "w_sent_header w1 = send_header w"
      using Write_call_fields [of e w d] by simp_all
    show ?thesis
    proof (cases werr)
      case (Some err)
      have "w_calls (fst (copyStream e w (Chunk d rest))) = w_calls w @ [Write d]"
        and "w_header (fst (copyStream e w (Chunk d rest))) = w_header w"
        and "\<forall>h. w_sent_header w = Some h \<longrightarrow>
               w_sent_header (fst (copyStream e w (Chunk d rest))) = Some h"
        using False wc Some w1 by simp_all
      moreover have "\<forall>x \<in> set [Write d]. x = Flush \<or> is_Write x" by (simp add: is_Write_def)
      moreover have "prefix (written [Write d]) (fst (ReadAll (Chunk d rest)))"
        by (simp del: ReadAll.simps)
      ultimately show ?thesis by blast
    next
      case None
      let ?w = "Flush_call w1"
      from Chunk [of ?w] obtain calls where
        c: "w_calls (fst (copyStream e ?w rest)) = w_calls ?w @ calls"
        "\<forall>x \<in> set calls. x = Flush \<or> is_Write x"
        "prefix (written calls) (fst (ReadAll rest))"
        "w_header (fst (copyStream e ?w rest)) = w_header ?w"
        "\<forall>h. w_sent_header ?w = Some h \<longrightarrow> w_sent_header (fst (copyStream e ?w rest)) = Some h"
        by blast
      have eq: "copyStream e w (Chunk d rest) = copyStream e ?w rest"
        using False wc None by simp
      have "w_calls (fst (copyStream e w (Chunk d rest))) = w_calls w @ (Write d # Flush # calls)"
        unfolding eq using c(1) w1 by simp
      moreover have "\<forall>x \<in> set (Write d # Flush # calls). x = Flush \<or> is_Write x"
        using c(2) by (simp add: is_Write_def)
      moreover have "prefix (written (Write d # Flush # calls)) (fst (ReadAll (Chunk d rest)))"
        using c(3) by (simp del: ReadAll.simps)
      moreover have "w_header (fst (copyStream e w (Chunk d rest))) = w_header w"
        unfolding eq using c(4) w1 by simp
      moreover have "\<forall>h. w_sent_header w = Some h \<longrightarrow>
               w_sent_header (fst (copyStream e w (Chunk d rest))) = Some h"
        unfolding eq using c(5) w1 by (simp add: send_header_idem)
      ultimately show ?thesis by blast
    qed
  qed
next
  case (Final d err)
  show ?case
  proof (cases "d = []")
    case True
    then show ?thesis by simp
  next
    case False
    obtain w1 werr where wc: "Write_call e w d = (w1, werr)" by (cases "Write_call e w d")
    then have w1: "w_calls w1 = w_calls w @ [Write d]" "w_header w1 = w_header w"
      "w_sent_header w1 = send_header w"
      using Write_call_fields [of e w d] by simp_all
    show ?thesis
    proof (cases werr)
      case (Some werr')
      have "w_calls (fst (copyStream e w (Final d err))) = w_calls w @ [Write d]"
        and "w_header (fst (copyStream e w (Final d err))) = w_header w"
        and "\<forall>h. w_sent_header w = Some h \<longrightarrow>
               w_sent_header (fst (copyStream e w (Final d err))) = Some h"
        using False wc Some w1 by simp_all
      moreover have "\<forall>x \<in> set [Write d]. x = Flush \<or> is_Write x" by (simp add: is_Write_def)
      moreover have "prefix (written [Write d]) (fst (ReadAll (Final d err)))" by simp
      ultimately show ?thesis by blast
    next
      case None
      have "w_calls (fst (copyStream e w (Final d err))) = w_calls w @ [Write d, Flush]"
        and "w_header (fst (copyStream e w (Final d err))) = w_header w"
        and "\<forall>h. w_sent_header w = Some h \<longrightarrow>
               w_sent_header (fst (copyStream e w (Final d err))) = Some h"
        using False wc None w1 by (simp_all add: send_header_idem)
      moreover have "\<forall>x \<in> set [Write d, Flush]. x = Flush \<or> is_Write x"
        by (simp add: is_Write_def)
      moreover have "prefix (written [Write d, Flush]) (fst (ReadAll (Final d err)))" by simp
      ultimately show ?thesis by blast
    qed
  qed
qed

text \<open>When no write to the caller fails, the copy ends as the reading does, with every byte
  read handed over.\<close>

lemma ReadAll_Chunk_snd [simp]: "snd (ReadAll (Chunk d rest)) = snd (ReadAll rest)"
  by (simp split: prod.splits)


lemma foldl_Header_Del:
  "foldl (\<lambda>h key. Header_Del key h) h ks k = (if k \<in> set ks then None else h k)"
  by (induction ks arbitrary: h) (auto simp: Header_Del_def)

lemma stripHopByHopHeaders_apply:
  "stripHopByHopHeaders h k = (if k \<in> set hopByHopHeaders then None else h k)"
  by (simp add: stripHopByHopHeaders_def foldl_Header_Del)

lemma not_hop_by_hop:
  "''Content-Length'' \<notin> set hopByHopHeaders"
  "''X-Forwarded-Host'' \<notin> set hopByHopHeaders"
  "''X-Forwarded-Proto'' \<notin> set hopByHopHeaders"
  "''Accept-Encoding'' \<notin> set hopByHopHeaders"
  by (simp_all add: hopByHopHeaders_def)

lemma doUpstreamRequest_header:
  "out_Header (fst (doUpstreamRequest e idx orig cfg b timeout stream)) k =
     (if k = ''X-Forwarded-Proto'' then Some [Scheme (targetURL cfg)]
      else if k = ''X-Forwarded-Host'' then Some [req_Host orig]
      else if k = ''Accept-Encoding'' \<or> k \<in> set hopByHopHeaders then None
      else req_Header orig k)"
  by (simp add: doUpstreamRequest_def Let_def Header_Set_def Header_Del_def
      stripHopByHopHeaders_apply)

lemma doUpstreamRequest_host:
  "out_Host (fst (doUpstreamRequest e idx orig cfg b timeout stream)) = Host (targetURL cfg)"
  by (simp add: doUpstreamRequest_def Let_def)

lemma attempt_built:
  assumes "r \<in> set (dispatched (iter_state (attempt e cfg orig stream n idx model c)))"
  shows "r \<in> set (dispatched c) \<or> (\<exists>i b t. r = fst (doUpstreamRequest e i orig cfg b t stream))"
proof (cases "json_Marshal e ((payload c)(''model'' \<mapsto> JString model))")
  case None
  from attempt_marshal_None [OF None, of cfg orig stream n idx] assms show ?thesis by auto
next
  case (Some b)
  from attempt_dispatched [OF Some, of cfg orig stream n idx] assms show ?thesis by auto
qed

lemma loop_built:
  assumes "r \<in> set (dispatched (iter_state (attempt_loop e cfg orig stream n idx ms c)))"
  shows "r \<in> set (dispatched c) \<or> (\<exists>i b t. r = fst (doUpstreamRequest e i orig cfg b t stream))"
  using assms
proof (induction ms arbitrary: idx c)
  case Nil
  then show ?case by simp
next
  case (Cons m ms)
  show ?case
  proof (cases "attempt e cfg orig stream n idx m c")
    case (Return c1)
    with Cons.prems attempt_built [of r e cfg orig stream n idx m c] show ?thesis by simp
  next
    case (Continue c1)
    with Cons.prems have "r \<in> set (dispatched (iter_state
        (attempt_loop e cfg orig stream n (Suc idx) ms c1)))" by simp
    from Cons.IH [OF this] have "r \<in> set (dispatched c1)
        \<or> (\<exists>i b t. r = fst (doUpstreamRequest e i orig cfg b t stream))" .
    with Continue attempt_built [of r e cfg orig stream n idx m c] show ?thesis by auto
  qed
qed

lemma handler_built:
  assumes "Request c0 = Some orig"
    and "r \<in> set (dispatched (handleChatCompletion e cfg c0))"
  shows "r \<in> set (dispatched c0)
         \<or> (\<exists>i b t stream. r = fst (doUpstreamRequest e i orig cfg b t stream))"
proof (cases "readRequestPayload e c0")
  case (Pair c r')
  show ?thesis
  proof (cases r')
    case None
    with Pair have "handleChatCompletion e cfg c0 = c" by (simp add: handleChatCompletion_def)
    moreover from Pair have "dispatched c = dispatched c0"
      using readRequestPayload_dispatched [of e c0] by simp
    ultimately show ?thesis using assms by simp
  next
    case (Some p)
    with Pair have rd: "readRequestPayload e c0 = (c, Some p)" by simp
    from readRequestPayload_Some [OF rd] have c: "c = c0" by simp
    let ?ms = "buildAttemptModels (extractModelName p) (fallbackModels cfg)"
    let ?c = "c0\<lparr>payload := p, lastResp := None, lastErr := None\<rparr>"
    show ?thesis
    proof (cases "extractModelName p = [] \<or> ?ms = []")
      case True
      with rd c have "dispatched (handleChatCompletion e cfg c0) = dispatched c0"
        by (auto simp: handleChatCompletion_def Let_def)
      with assms show ?thesis by simp
    next
      case False
      with rd c assms(1) have "handleChatCompletion e cfg c0 =
          retry_models e cfg orig (isStreamRequest p) ?ms ?c"
        by (simp add: handleChatCompletion_def Let_def)
      with assms(2) have "r \<in> set (dispatched (iter_state
          (attempt_loop e cfg orig (isStreamRequest p) (length ?ms) 0 ?ms ?c)))"
        by (simp add: retry_models_dispatched)
      from loop_built [OF this] show ?thesis by auto
    qed
  qed
qed


lemma writeResponse_header:
  "w_header (writeResponse e w resp) k =
     (if k \<in> set hopByHopHeaders then None
      else if k = ''Content-Length''
      then (if body resp = [] then None else Some [Itoa (length (body resp))])
      else (case header resp k of Some v \<Rightarrow> Some v | None \<Rightarrow> w_header w k))"
  using not_hop_by_hop(1)
  by (auto simp: writeResponse_def Let_def Header_Set_def Header_Del_def
      stripHopByHopHeaders_apply copyHeaders_def)

lemma writeResponse_calls:
  "w_calls (writeResponse e w resp) =
     w_calls w @ WriteHeader (status resp) # (if body resp = [] then [] else [Write (body resp)])"
  by (simp add: writeResponse_def Let_def)

text \<open>
  The header goes out when \<open>writeResponse\<close> writes the status line, and it is the header
  map as \<open>writeResponse\<close> leaves it: all the changes of the map come before.
\<close>

lemma writeResponse_sent:
  "w_sent_header (writeResponse e w resp) =
     (case w_sent_header w of
        None \<Rightarrow> Some (w_header (writeResponse e w resp))
      | Some h \<Rightarrow> Some h)"
  by (cases "w_sent_header w") (simp_all add: writeResponse_def Let_def send_header_def)

section \<open>The example requests\<close>

lemma plan_ex: "buildAttemptModels (extractModelName payload_plain) (fallbackModels cfg_ex) = [''m1'', ''m2'']"
  by code_simp

lemma plan_ex_stream:
  "buildAttemptModels (extractModelName payload_stream) (fallbackModels cfg_ex) = [''m1'', ''m2'']"
  by code_simp

lemma read_plain:
  "readRequestPayload (env_ex up) (ctx_ex body_plain) = (ctx_ex body_plain, Some payload_plain)"
  by (simp add: readRequestPayload_def ctx_ex_def request_ex_def body_plain_def env_ex_def)

lemma read_stream:
  "readRequestPayload (env_ex up) (ctx_ex body_stream) = (ctx_ex body_stream, Some payload_stream)"
  by (simp add: readRequestPayload_def ctx_ex_def request_ex_def body_stream_def env_ex_def)



text \<open>
  The first scenario of the specification, with no deadline on the attempts: the
  requested model answers 500, the fallback answers 200, and the caller receives the
  answer of the fallback. The two attempts carry the two models and go to the joined
  path.
\<close>

lemma scenario_fallback_success:
  \<open>w_calls (Writer (handleChatCompletion (env_ex up_fallback) cfg_nodeadline (ctx_ex body_plain)))
     = [WriteHeader 200, Write ''{"id":"x"}'']
   \<and> map out_Body
         (dispatched (handleChatCompletion (env_ex up_fallback) cfg_nodeadline (ctx_ex body_plain)))
     = [''{"model":"m1"}'', ''{"model":"m2"}'']
   \<and> map out_ctx_timeout
         (dispatched (handleChatCompletion (env_ex up_fallback) cfg_nodeadline (ctx_ex body_plain)))
     = [None, None]
   \<and> map (\<lambda>r. Path (out_target r))
         (dispatched (handleChatCompletion (env_ex up_fallback) cfg_nodeadline (ctx_ex body_plain)))
     = [''/v1/chat/completions'', ''/v1/chat/completions'']
   \<and> logs (handleChatCompletion (env_ex up_fallback) cfg_nodeadline (ctx_ex body_plain))
     = [LogRetrying ''m1'' 500 1 2]\<close>
  by code_simp

text \<open>
  The same request with the timeouts of \<open>cfg_ex\<close> (60 s, and 15 s for the fallback): each
  attempt runs under a context that \<open>doUpstreamRequest\<close> cancels on return, each body is
  read after that and the reading fails, so the two complete answers of the upstream are
  lost and the caller receives the 502 of the handler.
\<close>

lemma deferred_cancel_loses_answers:
  \<open>map out_ctx_timeout
       (dispatched (handleChatCompletion (env_ex up_fallback) cfg_ex (ctx_ex body_plain)))
     = [Some 60000000000, Some 15000000000]
   \<and> w_calls (Writer (handleChatCompletion (env_ex up_fallback) cfg_ex (ctx_ex body_plain)))
     = [WriteHeader 502, Write ''{"error":"upstream error"}'']
   \<and> logs (handleChatCompletion (env_ex up_fallback) cfg_ex (ctx_ex body_plain))
     = [LogReadResponseFailed ''m1'' Canceled, LogReadResponseFailed ''m2'' Canceled,
        LogAllAttemptsFailed Canceled]\<close>
  by code_simp

section \<open>The claims about the handler\<close>

text \<open>
  Claim C1, as amended: for every inbound request whose body is empty or is not parseable
  as JSON, the handler answers with status 503 and a JSON object with the single field
  \<open>error\<close> (\<open>empty request body\<close>, \<open>invalid json body\<close>), and no upstream attempt is
  made; the same holds with status 503 when the request or its body is nil, and with
  status 400 and \<open>invalid request body\<close> when the body cannot be read.
\<close>

theorem malformed_request_rejected:
  "(Request c0 = Some r \<and> req_Body r = Some b \<and> ReadAll b = (bytes, None)
      \<and> (bytes = [] \<or> json_Unmarshal e bytes = None) \<longrightarrow>
      w_calls (Writer (handleChatCompletion e cfg c0)) =
        w_calls (Writer c0) @
          [WriteHeader 503,
           Write (error_json (if bytes = [] then ''empty request body'' else ''invalid json body''))]
      \<and> dispatched (handleChatCompletion e cfg c0) = dispatched c0)
   \<and> (Request c0 = Some r \<and> req_Body r = Some b \<and> ReadAll b = (bytes, Some err) \<longrightarrow>
      w_calls (Writer (handleChatCompletion e cfg c0)) =
        w_calls (Writer c0) @ [WriteHeader 400, Write (error_json ''invalid request body'')]
      \<and> dispatched (handleChatCompletion e cfg c0) = dispatched c0)
   \<and> (Request c0 = None \<or> (Request c0 = Some r \<and> req_Body r = None) \<longrightarrow>
      w_calls (Writer (handleChatCompletion e cfg c0)) =
        w_calls (Writer c0) @ [WriteHeader 503, Write (error_json ''empty request body'')]
      \<and> dispatched (handleChatCompletion e cfg c0) = dispatched c0)"
  by (auto simp: handleChatCompletion_def readRequestPayload_def)

theorem malformed_request_rejected_witness:
  \<open>w_calls (Writer (handleChatCompletion (env_ex up_terminal) cfg_ex (ctx_ex (Some (Final [] EOF)))))
     = [WriteHeader 503, Write ''{"error":"empty request body"}'']
   \<and> dispatched (handleChatCompletion (env_ex up_terminal) cfg_ex (ctx_ex (Some (Final [] EOF)))) = []
   \<and> w_calls (Writer (handleChatCompletion (env_ex up_terminal) cfg_ex
          (ctx_ex (Some (Final ''not json'' EOF)))))
     = [WriteHeader 503, Write ''{"error":"invalid json body"}'']
   \<and> dispatched (handleChatCompletion (env_ex up_terminal) cfg_ex
          (ctx_ex (Some (Final ''not json'' EOF)))) = []
   \<and> w_calls (Writer (handleChatCompletion (env_ex up_terminal) cfg_ex
          (ctx_ex (Some (Final ''{"mod'' (OtherError ''connection reset''))))))
     = [WriteHeader 400, Write ''{"error":"invalid request body"}'']
   \<and> w_calls (Writer (handleChatCompletion (env_ex up_terminal) cfg_ex (ctx_ex None)))
     = [WriteHeader 503, Write ''{"error":"empty request body"}'']\<close>
proof -
  let ?e = "env_ex up_terminal"
  let ?b1 = "Final [] EOF" and ?b2 = "Final ''not json'' EOF"
  let ?b3 = \<open>Final ''{"mod'' (OtherError ''connection reset'')\<close>
  have 1: "Request (ctx_ex (Some ?b1)) = Some (request_ex (Some ?b1))
      \<and> req_Body (request_ex (Some ?b1)) = Some ?b1
      \<and> ReadAll ?b1 = ([], None)
      \<and> ([] = [] \<or> json_Unmarshal ?e [] = None)"
    by (simp add: ctx_ex_def request_ex_def)
  have 2: "Request (ctx_ex (Some ?b2)) = Some (request_ex (Some ?b2))
      \<and> req_Body (request_ex (Some ?b2)) = Some ?b2
      \<and> ReadAll ?b2 = (''not json'', None)
      \<and> (''not json'' = [] \<or> json_Unmarshal ?e ''not json'' = None)"
    by (simp add: ctx_ex_def request_ex_def env_ex_def)
  have 3: \<open>Request (ctx_ex (Some ?b3)) = Some (request_ex (Some ?b3))
      \<and> req_Body (request_ex (Some ?b3)) = Some ?b3
      \<and> ReadAll ?b3 = (''{"mod'', Some (OtherError ''connection reset''))\<close>
    by (simp add: ctx_ex_def request_ex_def)
  have 4: "Request (ctx_ex None) = None
      \<or> (Request (ctx_ex None) = Some (request_ex None) \<and> req_Body (request_ex None) = None)"
    by (simp add: ctx_ex_def request_ex_def)
  show ?thesis
    using malformed_request_rejected [of "ctx_ex (Some ?b1)" "request_ex (Some ?b1)" ?b1 "[]"
          ?e cfg_ex] 1
      malformed_request_rejected [of "ctx_ex (Some ?b2)" "request_ex (Some ?b2)" ?b2
          "''not json''" ?e cfg_ex] 2
      malformed_request_rejected [of "ctx_ex (Some ?b3)" "request_ex (Some ?b3)" ?b3
          \<open>''{"mod''\<close> ?e cfg_ex "OtherError ''connection reset''"] 3
      malformed_request_rejected [of "ctx_ex None" "request_ex None" _ _ ?e cfg_ex] 4
    by (simp add: error_json_def ctx_ex_def)
qed

text \<open>
  Claim C1 as the specification states it gives status 400 to an empty body and to a
  body that is not JSON. The handler answers both with status 503.
\<close>

theorem malformed_request_not_400_counterexample:
  \<open>w_calls (Writer (handleChatCompletion (env_ex up_terminal) cfg_ex (ctx_ex (Some (Final [] EOF)))))
     = [WriteHeader 503, Write ''{"error":"empty request body"}'']
   \<and> json_Unmarshal (env_ex up_terminal) ''not json'' = None
   \<and> w_calls (Writer (handleChatCompletion (env_ex up_terminal) cfg_ex
          (ctx_ex (Some (Final ''not json'' EOF)))))
     = [WriteHeader 503, Write ''{"error":"invalid json body"}'']\<close>
proof (intro conjI)
  show \<open>w_calls (Writer (handleChatCompletion (env_ex up_terminal) cfg_ex
           (ctx_ex (Some (Final [] EOF)))))
     = [WriteHeader 503, Write ''{"error":"empty request body"}'']\<close>
    by code_simp
  show "json_Unmarshal (env_ex up_terminal) ''not json'' = None"
    by (simp add: env_ex_def)
  show \<open>w_calls (Writer (handleChatCompletion (env_ex up_terminal) cfg_ex
          (ctx_ex (Some (Final ''not json'' EOF)))))
     = [WriteHeader 503, Write ''{"error":"invalid json body"}'']\<close>
    by code_simp
qed

text \<open>
  Claim C2, as amended: for every dispatched attempt, the headers of the outbound request
  are the inbound headers without the hop-by-hop set and without \<open>Accept-Encoding\<close>, with
  \<open>X-Forwarded-Host\<close> set to the host of the inbound request and \<open>X-Forwarded-Proto\<close>
  set to the scheme of the upstream base URL; the outbound \<open>Host\<close> is the upstream
  authority.
\<close>

theorem outbound_request_headers:
  assumes "dispatched c0 = []"
    and "Request c0 = Some orig"
    and "r \<in> set (dispatched (handleChatCompletion e cfg c0))"
  shows "out_Header r k =
           (if k = ''X-Forwarded-Proto'' then Some [Scheme (targetURL cfg)]
            else if k = ''X-Forwarded-Host'' then Some [req_Host orig]
            else if k = ''Accept-Encoding'' \<or> k \<in> set hopByHopHeaders then None
            else req_Header orig k)
         \<and> out_Host r = Host (targetURL cfg)"
proof -
  from handler_built [OF assms(2) assms(3)] assms(1)
  obtain i b t stream where "r = fst (doUpstreamRequest e i orig cfg b t stream)" by auto
  then show ?thesis
    by (simp only: doUpstreamRequest_header doUpstreamRequest_host)
qed

theorem outbound_request_headers_witness:
  "out_Header (hd (dispatched (handleChatCompletion (env_ex up_terminal) cfg_ex (ctx_ex body_plain))))
       ''X-Forwarded-Proto'' = Some [''https'']
   \<and> out_Header (hd (dispatched (handleChatCompletion (env_ex up_terminal) cfg_ex (ctx_ex body_plain))))
       ''X-Forwarded-Host'' = Some [''router.local:8080'']
   \<and> out_Header (hd (dispatched (handleChatCompletion (env_ex up_terminal) cfg_ex (ctx_ex body_plain))))
       ''Connection'' = None
   \<and> out_Header (hd (dispatched (handleChatCompletion (env_ex up_terminal) cfg_ex (ctx_ex body_plain))))
       ''Accept-Encoding'' = None
   \<and> out_Header (hd (dispatched (handleChatCompletion (env_ex up_terminal) cfg_ex (ctx_ex body_plain))))
       ''Authorization'' = Some [''Bearer sk-xxx'']
   \<and> out_Host (hd (dispatched (handleChatCompletion (env_ex up_terminal) cfg_ex (ctx_ex body_plain))))
       = ''api.openai.com''"
proof -
  let ?final = "handleChatCompletion (env_ex up_terminal) cfg_ex (ctx_ex body_plain)"
  have 1: "dispatched (ctx_ex body_plain) = []" by (simp add: ctx_ex_def)
  have 2: "Request (ctx_ex body_plain) = Some (request_ex body_plain)" by (simp add: ctx_ex_def)
  have "0 < length (dispatched ?final)" by code_simp
  then have "dispatched ?final \<noteq> []" by auto
  then have 3: "hd (dispatched ?final) \<in> set (dispatched ?final)" by (rule hd_in_set)
  note T = outbound_request_headers [OF 1 2 3]
  from T [of "''X-Forwarded-Proto''"] T [of "''X-Forwarded-Host''"] T [of "''Connection''"]
    T [of "''Accept-Encoding''"] T [of "''Authorization''"]
  show ?thesis
    by (simp add: cfg_ex_def request_ex_def hopByHopHeaders_def)
qed

text \<open>
  Claim C2 as the specification states it has \<open>X-Forwarded-Proto\<close> reflect the protocol
  of the inbound request. For a request that came in over plain HTTP, forwarded to an
  \<open>https\<close> upstream, the header says \<open>https\<close>.
\<close>

theorem forwarded_proto_counterexample:
  "Request (ctx_ex body_plain) = Some (request_ex body_plain)
   \<and> inbound_scheme (request_ex body_plain) = ''http''
   \<and> length (dispatched (handleChatCompletion (env_ex up_terminal) cfg_nodeadline
                 (ctx_ex body_plain))) = 1
   \<and> out_Header (hd (dispatched (handleChatCompletion (env_ex up_terminal) cfg_nodeadline
                 (ctx_ex body_plain))))
       ''X-Forwarded-Proto'' = Some [''https'']"
proof (intro conjI)
  show "Request (ctx_ex body_plain) = Some (request_ex body_plain)" by (simp add: ctx_ex_def)
  show "inbound_scheme (request_ex body_plain) = ''http''" by code_simp
  show "length (dispatched (handleChatCompletion (env_ex up_terminal) cfg_nodeadline
                 (ctx_ex body_plain))) = 1"
    by code_simp
  show "out_Header (hd (dispatched (handleChatCompletion (env_ex up_terminal) cfg_nodeadline
          (ctx_ex body_plain)))) ''X-Forwarded-Proto'' = Some [''https'']"
    by code_simp
qed




text \<open>
  A streaming request answered with a 2xx status of the no-retry set is streamed, not
  buffered: when a write to the caller fails, the caller is left with a part of the body.
\<close>

lemma no_retry_streamed_partial:
  "ReadAll (Chunk ''a'' (Chunk ''b'' (Final ''c'' EOF))) = (''abc'', None)
   \<and> w_calls (Writer (handleChatCompletion
        ((env_ex (\<lambda>i. response_ex 200 (Chunk ''a'' (Chunk ''b'' (Final ''c'' EOF)))))
           \<lparr>write_result := (\<lambda>n. if n = 1 then Some (OtherError ''broken pipe'') else None)\<rparr>)
        (cfg_ex\<lparr>noRetryStatuses := {200}\<rparr>) (ctx_ex body_stream)))
     = [WriteHeader 200, Write ''a'', Flush, Write ''b'']"
proof
  show "ReadAll (Chunk ''a'' (Chunk ''b'' (Final ''c'' EOF))) = (''abc'', None)" by simp
  show "w_calls (Writer (handleChatCompletion
        ((env_ex (\<lambda>i. response_ex 200 (Chunk ''a'' (Chunk ''b'' (Final ''c'' EOF)))))
           \<lparr>write_result := (\<lambda>n. if n = 1 then Some (OtherError ''broken pipe'') else None)\<rparr>)
        (cfg_ex\<lparr>noRetryStatuses := {200}\<rparr>) (ctx_ex body_stream)))
     = [WriteHeader 200, Write ''a'', Flush, Write ''b'']"
    by code_simp
qed




text \<open>
  Claim C7: for a streaming request, once candidate \<open>k\<close> answers with a 2xx status, no
  later candidate is attempted and the handler aborts with no error response: all it
  does on the caller's writer is to set the headers, write the status of the candidate,
  and copy the stream (the bytes written are a prefix of the upstream body). When the
  copy fails, the failure is the last line logged, and nothing else differs.
\<close>

theorem stream_commit:
  assumes "dispatched c0 = []"
    and "readRequestPayload e c0 = (c, Some p)"
    and "isStreamRequest p"
    and "k < length (dispatched (handleChatCompletion e cfg c0))"
    and "client_Do e k = DoResponse resp"
    and "isSuccessStatus (StatusCode resp)"
  shows "length (dispatched (handleChatCompletion e cfg c0)) = Suc k
    \<and> aborted (handleChatCompletion e cfg c0) = aborted c0
    \<and> Writer (handleChatCompletion e cfg c0) =
        fst (copyStream e
               (WriteHeader_call (StatusCode resp)
                  ((Writer c0)\<lparr>w_header :=
                      stripHopByHopHeaders (copyHeaders (w_header (Writer c0)) (Header resp))\<rparr>))
               (Body resp))
    \<and> (\<exists>calls. w_calls (Writer (handleChatCompletion e cfg c0)) =
                  w_calls (Writer c0) @ WriteHeader (StatusCode resp) # calls
          \<and> (\<forall>x \<in> set calls. x = Flush \<or> is_Write x)
          \<and> prefix (written calls) (fst (ReadAll (Body resp))))
    \<and> (case snd (copyStream e
               (WriteHeader_call (StatusCode resp)
                  ((Writer c0)\<lparr>w_header :=
                      stripHopByHopHeaders (copyHeaders (w_header (Writer c0)) (Header resp))\<rparr>))
               (Body resp)) of
          None \<Rightarrow> True
        | Some cerr \<Rightarrow>
            logs (handleChatCompletion e cfg c0) \<noteq> []
            \<and> last (logs (handleChatCompletion e cfg c0)) =
                (if cerr = Canceled then LogStreamCanceled
                 else LogStreamCopyFailed
                        (buildAttemptModels (extractModelName p) (fallbackModels cfg) ! k) cerr))"
proof -
  let ?w = "WriteHeader_call (StatusCode resp)
                  ((Writer c0)\<lparr>w_header :=
                      stripHopByHopHeaders (copyHeaders (w_header (Writer c0)) (Header resp))\<rparr>)"
  let ?ms = "buildAttemptModels (extractModelName p) (fallbackModels cfg)"
  from handler_reaches [OF assms(1) assms(4)] assms(2)
  obtain orig ck b' where ck: "Writer ck = Writer c0" "length (dispatched ck) = k"
      "aborted ck = aborted c0"
    and m: "json_Marshal e ((payload ck)(''model'' \<mapsto> JString (?ms ! k))) = Some b'"
    and h: "handleChatCompletion e cfg c0 =
                after_attempt e cfg orig (isStreamRequest p) ?ms k
                  (attempt e cfg orig (isStreamRequest p) (length ?ms) k (?ms ! k) ck)"
    by auto
  note step = attempt_streamed [OF m assms(5) assms(3) assms(6)]
  have 1: "length (dispatched (handleChatCompletion e cfg c0)) = Suc k"
    unfolding h step using ck by (simp add: after_attempt_def Let_def split: option.splits)
  have 2: "aborted (handleChatCompletion e cfg c0) = aborted c0"
    unfolding h step using ck by (simp add: after_attempt_def Let_def split: option.splits)
  have 3: "Writer (handleChatCompletion e cfg c0) = fst (copyStream e ?w (Body resp))"
    unfolding h step using ck by (simp add: after_attempt_def Let_def split: option.splits)
  from copyStream_calls [of e ?w "Body resp"] obtain calls where
    c: "w_calls (fst (copyStream e ?w (Body resp))) = w_calls ?w @ calls"
       "\<forall>x \<in> set calls. x = Flush \<or> is_Write x"
       "prefix (written calls) (fst (ReadAll (Body resp)))"
    by blast
  have 4: "\<exists>calls. w_calls (Writer (handleChatCompletion e cfg c0)) =
                  w_calls (Writer c0) @ WriteHeader (StatusCode resp) # calls
          \<and> (\<forall>x \<in> set calls. x = Flush \<or> is_Write x)
          \<and> prefix (written calls) (fst (ReadAll (Body resp)))"
    using c by (intro exI [of _ calls]) (simp add: 3 WriteHeader_call_def)
  have 5: "(case snd (copyStream e ?w (Body resp)) of
          None \<Rightarrow> True
        | Some cerr \<Rightarrow>
            logs (handleChatCompletion e cfg c0) \<noteq> []
            \<and> last (logs (handleChatCompletion e cfg c0)) =
                (if cerr = Canceled then LogStreamCanceled
                 else LogStreamCopyFailed (?ms ! k) cerr))"
    unfolding h step using ck by (simp add: after_attempt_def Let_def split: option.splits)
  from 1 2 3 4 5 show ?thesis by blast
qed

theorem stream_commit_witness:
  "length (dispatched (handleChatCompletion (env_ex up_stream_breaks) cfg_ex (ctx_ex body_stream)))
     = Suc 0
   \<and> aborted (handleChatCompletion (env_ex up_stream_breaks) cfg_ex (ctx_ex body_stream)) = False
   \<and> w_calls (Writer (handleChatCompletion (env_ex up_stream_breaks) cfg_ex (ctx_ex body_stream)))
       = [WriteHeader 200, Write ''a'', Flush, Write ''b'', Flush]
   \<and> last (logs (handleChatCompletion (env_ex up_stream_breaks) cfg_ex (ctx_ex body_stream)))
       = LogStreamCopyFailed ''m1'' (OtherError ''connection reset'')"
proof -
  let ?e = "env_ex up_stream_breaks"
  let ?resp = "\<lparr>StatusCode = 200, Header = header_ex,
                 Body = Chunk ''a'' (Chunk ''b'' (Final [] (OtherError ''connection reset'')))\<rparr>"
  let ?w = "WriteHeader_call (StatusCode ?resp)
              ((Writer (ctx_ex body_stream))\<lparr>w_header :=
                  stripHopByHopHeaders
                    (copyHeaders (w_header (Writer (ctx_ex body_stream))) (Header ?resp))\<rparr>)"
  have 1: "dispatched (ctx_ex body_stream) = []" by (simp add: ctx_ex_def)
  have 3: "isStreamRequest payload_stream" by code_simp
  have 4: "0 < length (dispatched (handleChatCompletion ?e cfg_ex (ctx_ex body_stream)))"
    by code_simp
  have 5: "client_Do ?e 0 = DoResponse ?resp"
    by (simp add: env_ex_def up_stream_breaks_def response_ex_def)
  have 6: "isSuccessStatus (StatusCode ?resp)" by (simp add: isSuccessStatus_def)
  note T = stream_commit [OF 1 read_stream 3 4 5 6]
  have cs: "w_calls (fst (copyStream ?e ?w (Body ?resp)))
              = [WriteHeader 200, Write ''a'', Flush, Write ''b'', Flush]"
    by (simp add: env_ex_def Write_call_def Flush_call_def WriteHeader_call_def ctx_ex_def
        is_Write_def)
  have ce: "snd (copyStream ?e ?w (Body ?resp)) = Some (OtherError ''connection reset'')"
    by (simp add: env_ex_def Write_call_def Flush_call_def WriteHeader_call_def ctx_ex_def
        is_Write_def)
  from T have a: "length (dispatched (handleChatCompletion ?e cfg_ex (ctx_ex body_stream))) = Suc 0"
    by simp
  from T have b: "aborted (handleChatCompletion ?e cfg_ex (ctx_ex body_stream)) = False"
    by (simp add: ctx_ex_def)
  from T have "Writer (handleChatCompletion ?e cfg_ex (ctx_ex body_stream))
      = fst (copyStream ?e ?w (Body ?resp))" by simp
  with cs have c: "w_calls (Writer (handleChatCompletion ?e cfg_ex (ctx_ex body_stream)))
       = [WriteHeader 200, Write ''a'', Flush, Write ''b'', Flush]" by simp
  from T have "case snd (copyStream ?e ?w (Body ?resp)) of
          None \<Rightarrow> True
        | Some cerr \<Rightarrow>
            logs (handleChatCompletion ?e cfg_ex (ctx_ex body_stream)) \<noteq> []
            \<and> last (logs (handleChatCompletion ?e cfg_ex (ctx_ex body_stream))) =
                (if cerr = Canceled then LogStreamCanceled
                 else LogStreamCopyFailed
                        (buildAttemptModels (extractModelName payload_stream)
                           (fallbackModels cfg_ex) ! 0) cerr)"
    by simp
  then have d: "last (logs (handleChatCompletion ?e cfg_ex (ctx_ex body_stream)))
       = LogStreamCopyFailed ''m1'' (OtherError ''connection reset'')"
    unfolding ce plan_ex_stream by simp
  from a b c d show ?thesis by simp
qed

text \<open>
  Claim C8: if the upstream call of candidate \<open>k\<close> fails with a cancellation error, no
  later candidate is attempted and the handler has not touched the caller's writer nor
  the abort flag. An error other than cancellation leaves the writer alone as well, is
  recorded as the last error, and the loop goes on: the next candidate, if there is one,
  is attempted.
\<close>

theorem cancellation_aborts:
  "(dispatched c0 = [] \<and> k < length (dispatched (handleChatCompletion e cfg c0))
      \<and> client_Do e k = DoError Canceled \<longrightarrow>
        length (dispatched (handleChatCompletion e cfg c0)) = Suc k
        \<and> Writer (handleChatCompletion e cfg c0) = Writer c0
        \<and> aborted (handleChatCompletion e cfg c0) = aborted c0)
   \<and> (json_Marshal e ((payload c)(''model'' \<mapsto> JString model)) = Some b
        \<and> client_Do e idx = DoError err \<and> err \<noteq> Canceled \<longrightarrow>
        (\<exists>c'. attempt e cfg orig stream n idx model c = Continue c' \<and> lastErr c' = Some err
              \<and> Writer c' = Writer c \<and> aborted c' = aborted c
              \<and> length (dispatched c') = Suc (length (dispatched c))))
   \<and> (dispatched c0 = [] \<and> readRequestPayload e c0 = (c1, Some p)
        \<and> k < length (dispatched (handleChatCompletion e cfg c0))
        \<and> client_Do e k = DoError err \<and> err \<noteq> Canceled
        \<and> Suc k < length (buildAttemptModels (extractModelName p) (fallbackModels cfg))
        \<and> (\<forall>q. json_Marshal e q \<noteq> None) \<longrightarrow>
        Suc k < length (dispatched (handleChatCompletion e cfg c0)))"
proof (intro conjI impI)
  assume a: "dispatched c0 = [] \<and> k < length (dispatched (handleChatCompletion e cfg c0))
      \<and> client_Do e k = DoError Canceled"
  then have a1: "dispatched c0 = []" and a2: "k < length (dispatched (handleChatCompletion e cfg c0))"
    and a3: "client_Do e k = DoError Canceled" by simp_all
  from handler_reaches [OF a1 a2]
  obtain p orig ck b' where ck: "Writer ck = Writer c0" "aborted ck = aborted c0"
      "length (dispatched ck) = k"
    and m: "json_Marshal e ((payload ck)(''model'' \<mapsto>
                 JString (buildAttemptModels (extractModelName p) (fallbackModels cfg) ! k))) = Some b'"
    and h: "handleChatCompletion e cfg c0 =
                after_attempt e cfg orig (isStreamRequest p)
                  (buildAttemptModels (extractModelName p) (fallbackModels cfg)) k
                  (attempt e cfg orig (isStreamRequest p)
                     (length (buildAttemptModels (extractModelName p) (fallbackModels cfg))) k
                     (buildAttemptModels (extractModelName p) (fallbackModels cfg) ! k) ck)"
    by auto
  show "length (dispatched (handleChatCompletion e cfg c0)) = Suc k"
    unfolding h attempt_DoError [OF m a3] using ck by (simp add: after_attempt_def)
  show "Writer (handleChatCompletion e cfg c0) = Writer c0"
    unfolding h attempt_DoError [OF m a3] using ck by (simp add: after_attempt_def)
  show "aborted (handleChatCompletion e cfg c0) = aborted c0"
    unfolding h attempt_DoError [OF m a3] using ck by (simp add: after_attempt_def)
next
  assume a: "json_Marshal e ((payload c)(''model'' \<mapsto> JString model)) = Some b
        \<and> client_Do e idx = DoError err \<and> err \<noteq> Canceled"
  then have m: "json_Marshal e ((payload c)(''model'' \<mapsto> JString model)) = Some b"
    and d: "client_Do e idx = DoError err" and ne: "err \<noteq> Canceled" by simp_all
  show "\<exists>c'. attempt e cfg orig stream n idx model c = Continue c' \<and> lastErr c' = Some err
              \<and> Writer c' = Writer c \<and> aborted c' = aborted c
              \<and> length (dispatched c') = Suc (length (dispatched c))"
    unfolding attempt_DoError [OF m d] using ne by simp
next
  let ?ms = "buildAttemptModels (extractModelName p) (fallbackModels cfg)"
  assume a: "dispatched c0 = [] \<and> readRequestPayload e c0 = (c1, Some p)
        \<and> k < length (dispatched (handleChatCompletion e cfg c0))
        \<and> client_Do e k = DoError err \<and> err \<noteq> Canceled
        \<and> Suc k < length ?ms \<and> (\<forall>q. json_Marshal e q \<noteq> None)"
  then have a1: "dispatched c0 = []" and rd: "readRequestPayload e c0 = (c1, Some p)"
    and a2: "k < length (dispatched (handleChatCompletion e cfg c0))"
    and d: "client_Do e k = DoError err" and ne: "err \<noteq> Canceled"
    and more: "Suc k < length ?ms" and total: "\<forall>q. json_Marshal e q \<noteq> None"
    by simp_all
  from handler_reaches [OF a1 a2] rd
  obtain orig ck b' where ck: "length (dispatched ck) = k"
    and m: "json_Marshal e ((payload ck)(''model'' \<mapsto> JString (?ms ! k))) = Some b'"
    and h: "handleChatCompletion e cfg c0 =
                after_attempt e cfg orig (isStreamRequest p) ?ms k
                  (attempt e cfg orig (isStreamRequest p) (length ?ms) k (?ms ! k) ck)"
    by auto
  let ?c' = "logf (LogUpstreamError (?ms ! k) (k + 1) (length ?ms) err)
               ((sent e cfg orig (isStreamRequest p) k (?ms ! k) b' ck)\<lparr>lastErr := Some err\<rparr>)"
  from attempt_DoError [OF m d, of cfg orig "isStreamRequest p" "length ?ms"] ne
  have step: "attempt e cfg orig (isStreamRequest p) (length ?ms) k (?ms ! k) ck = Continue ?c'"
    by simp
  have len: "length (dispatched ?c') = Suc k" using ck by simp
  let ?r = "attempt e cfg orig (isStreamRequest p) (length ?ms) (Suc k) (?ms ! Suc k) ?c'"
  from total obtain b'' where
    "json_Marshal e ((payload ?c')(''model'' \<mapsto> JString (?ms ! Suc k))) = Some b''"
    by (meson option.exhaust)
  from attempt_dispatched [OF this, of cfg orig "isStreamRequest p" "length ?ms" "Suc k"] len
  have "length (dispatched (iter_state ?r)) = Suc (Suc k)" by simp
  moreover have "handleChatCompletion e cfg c0 =
      after_attempt e cfg orig (isStreamRequest p) ?ms (Suc k) ?r"
    unfolding h step by (rule after_attempt_step [OF more])
  ultimately show "Suc k < length (dispatched (handleChatCompletion e cfg c0))"
    using after_attempt_mono [of ?r e cfg orig "isStreamRequest p" ?ms "Suc k"] by simp
qed

theorem cancellation_aborts_witness:
  "length (dispatched (handleChatCompletion (env_ex up_canceled) cfg_ex (ctx_ex body_plain))) = 2
   \<and> Writer (handleChatCompletion (env_ex up_canceled) cfg_ex (ctx_ex body_plain))
       = Writer (ctx_ex body_plain)
   \<and> aborted (handleChatCompletion (env_ex up_canceled) cfg_ex (ctx_ex body_plain)) = False
   \<and> (\<exists>c'. attempt (env_ex up_canceled) cfg_ex (request_ex body_plain) False 2 0 ''m1''
               (ctx_ex body_plain) = Continue c'
          \<and> lastErr c' = Some (OtherError ''dial tcp: i/o timeout'')
          \<and> Writer c' = Writer (ctx_ex body_plain))
   \<and> Suc 0 < length (dispatched (handleChatCompletion (env_ex up_canceled) cfg_ex
                        (ctx_ex body_plain)))"
proof -
  let ?e = "env_ex up_canceled"
  let ?final = "handleChatCompletion ?e cfg_ex (ctx_ex body_plain)"
  have a: "dispatched (ctx_ex body_plain) = [] \<and> 1 < length (dispatched ?final)
      \<and> client_Do ?e 1 = DoError Canceled"
  proof (intro conjI)
    show "dispatched (ctx_ex body_plain) = []" by (simp add: ctx_ex_def)
    show "1 < length (dispatched ?final)" by code_simp
    show "client_Do ?e 1 = DoError Canceled" by (simp add: env_ex_def up_canceled_def)
  qed
  have b: \<open>json_Marshal ?e ((payload (ctx_ex body_plain))(''model'' \<mapsto> JString ''m1''))
        = Some ''{"model":"m1"}''
      \<and> client_Do ?e 0 = DoError (OtherError ''dial tcp: i/o timeout'')
      \<and> OtherError ''dial tcp: i/o timeout'' \<noteq> Canceled\<close>
    by (simp add: env_ex_def up_canceled_def)
  have c: "dispatched (ctx_ex body_plain) = []
      \<and> readRequestPayload ?e (ctx_ex body_plain) = (ctx_ex body_plain, Some payload_plain)
      \<and> 0 < length (dispatched ?final)
      \<and> client_Do ?e 0 = DoError (OtherError ''dial tcp: i/o timeout'')
      \<and> OtherError ''dial tcp: i/o timeout'' \<noteq> Canceled
      \<and> Suc 0 < length (buildAttemptModels (extractModelName payload_plain) (fallbackModels cfg_ex))
      \<and> (\<forall>q. json_Marshal ?e q \<noteq> None)"
  proof (intro conjI)
    show "dispatched (ctx_ex body_plain) = []" by (simp add: ctx_ex_def)
    show "readRequestPayload ?e (ctx_ex body_plain) = (ctx_ex body_plain, Some payload_plain)"
      by (rule read_plain)
    show "0 < length (dispatched ?final)" by code_simp
    show "client_Do ?e 0 = DoError (OtherError ''dial tcp: i/o timeout'')"
      by (simp add: env_ex_def up_canceled_def)
    show "OtherError ''dial tcp: i/o timeout'' \<noteq> Canceled" by simp
    show "Suc 0 < length (buildAttemptModels (extractModelName payload_plain) (fallbackModels cfg_ex))"
      unfolding plan_ex by simp
    show "\<forall>q. json_Marshal ?e q \<noteq> None" by (simp add: env_ex_def)
  qed
  note T = cancellation_aborts [of "ctx_ex body_plain" 1 ?e cfg_ex "ctx_ex body_plain" "''m1''"
      \<open>''{"model":"m1"}''\<close> 0 "OtherError ''dial tcp: i/o timeout''" "request_ex body_plain"
      False 2 "ctx_ex body_plain" payload_plain]
  from T a have p1: "length (dispatched ?final) = Suc 1
      \<and> Writer ?final = Writer (ctx_ex body_plain)
      \<and> aborted ?final = aborted (ctx_ex body_plain)"
    by blast
  from T b have p2: "\<exists>c'. attempt ?e cfg_ex (request_ex body_plain) False 2 0 ''m1''
               (ctx_ex body_plain) = Continue c'
          \<and> lastErr c' = Some (OtherError ''dial tcp: i/o timeout'')
          \<and> Writer c' = Writer (ctx_ex body_plain)"
    by blast
  from cancellation_aborts [of "ctx_ex body_plain" 0 ?e cfg_ex "ctx_ex body_plain" "''m1''"
      \<open>''{"model":"m1"}''\<close> 0 "OtherError ''dial tcp: i/o timeout''" "request_ex body_plain"
      False 2 "ctx_ex body_plain" payload_plain] c
  have p3: "Suc 0 < length (dispatched ?final)"
    by blast
  from p1 p2 p3 show ?thesis by (simp add: ctx_ex_def)
qed

text \<open>
  Claim C9: for every buffered response, the emitter copies the cached headers into the
  caller's header map, deletes the hop-by-hop headers and \<open>Content-Length\<close>, sets
  \<open>Content-Length\<close> to the decimal length of the body unless the body is empty, then
  writes the cached status and after it the body (no write for an empty body). The
  header map is complete when the status is written: on a writer that has sent nothing
  yet, the header that goes out with the status is the header map as the emitter leaves
  it.
\<close>

theorem writeResponse_emits:
  "w_header (writeResponse e w resp) k =
     (if k \<in> set hopByHopHeaders then None
      else if k = ''Content-Length''
      then (if body resp = [] then None else Some [Itoa (length (body resp))])
      else (case header resp k of Some v \<Rightarrow> Some v | None \<Rightarrow> w_header w k))
   \<and> w_calls (writeResponse e w resp) =
       w_calls w @ WriteHeader (status resp) # (if body resp = [] then [] else [Write (body resp)])
   \<and> w_sent_header (writeResponse e w resp) =
       (case w_sent_header w of
          None \<Rightarrow> Some (w_header (writeResponse e w resp))
        | Some h \<Rightarrow> Some h)"
  using writeResponse_header [of e w resp k] writeResponse_calls [of e w resp]
    writeResponse_sent [of e w resp]
  by blast

theorem writeResponse_emits_witness:
  "w_header (writeResponse (env_ex up_terminal) (Writer (ctx_ex body_plain))
       \<lparr>status = 400, header = header_ex, body = ''bad request''\<rparr>) ''Content-Length''
     = Some [''11'']
   \<and> w_header (writeResponse (env_ex up_terminal) (Writer (ctx_ex body_plain))
       \<lparr>status = 400, header = header_ex, body = ''bad request''\<rparr>) ''Transfer-Encoding'' = None
   \<and> w_header (writeResponse (env_ex up_terminal) (Writer (ctx_ex body_plain))
       \<lparr>status = 400, header = header_ex, body = ''bad request''\<rparr>) ''Content-Type''
     = Some [''application/json'']
   \<and> w_calls (writeResponse (env_ex up_terminal) (Writer (ctx_ex body_plain))
       \<lparr>status = 400, header = header_ex, body = ''bad request''\<rparr>)
     = [WriteHeader 400, Write ''bad request'']
   \<and> w_header (writeResponse (env_ex up_terminal) (Writer (ctx_ex body_plain))
       \<lparr>status = 204, header = header_ex, body = []\<rparr>) ''Content-Length'' = None
   \<and> w_calls (writeResponse (env_ex up_terminal) (Writer (ctx_ex body_plain))
       \<lparr>status = 204, header = header_ex, body = []\<rparr>) = [WriteHeader 204]
   \<and> w_sent_header (writeResponse (env_ex up_terminal) (Writer (ctx_ex body_plain))
       \<lparr>status = 400, header = header_ex, body = ''bad request''\<rparr>)
     = Some (w_header (writeResponse (env_ex up_terminal) (Writer (ctx_ex body_plain))
       \<lparr>status = 400, header = header_ex, body = ''bad request''\<rparr>))"
proof -
  let ?e = "env_ex up_terminal" and ?w = "Writer (ctx_ex body_plain)"
  let ?r = "\<lparr>status = 400, header = header_ex, body = ''bad request''\<rparr>"
  let ?s = "\<lparr>status = 204, header = header_ex, body = []\<rparr>"
  have l: "length (body ?r) = 11" by simp
  have i: "Itoa 11 = ''11''" by code_simp
  have n: "w_sent_header ?w = None" by (simp add: ctx_ex_def)
  from writeResponse_emits [of ?e ?w ?r "''Content-Length''", unfolded l i]
  have a: "w_header (writeResponse ?e ?w ?r) ''Content-Length'' = Some [''11'']"
    and b: "w_calls (writeResponse ?e ?w ?r) = [WriteHeader 400, Write ''bad request'']"
    by (simp_all add: hopByHopHeaders_def ctx_ex_def)
  from writeResponse_emits [of ?e ?w ?r "''Transfer-Encoding''"]
  have c: "w_header (writeResponse ?e ?w ?r) ''Transfer-Encoding'' = None"
    by (simp add: hopByHopHeaders_def)
  from writeResponse_emits [of ?e ?w ?r "''Content-Type''"]
  have d: "w_header (writeResponse ?e ?w ?r) ''Content-Type'' = Some [''application/json'']"
    by (simp add: hopByHopHeaders_def header_ex_def)
  from writeResponse_emits [of ?e ?w ?s "''Content-Length''"]
  have f: "w_header (writeResponse ?e ?w ?s) ''Content-Length'' = None"
    and g: "w_calls (writeResponse ?e ?w ?s) = [WriteHeader 204]"
    by (simp_all add: hopByHopHeaders_def ctx_ex_def)
  from writeResponse_emits [of ?e ?w ?r "''Content-Type''"] n
  have k: "w_sent_header (writeResponse ?e ?w ?r) = Some (w_header (writeResponse ?e ?w ?r))"
    by simp
  from a b c d f g k show ?thesis by blast
qed

text \<open>
  Claim C10: for every payload whose model name, as \<open>extractModelName\<close> returns it, is
  not empty, the planned attempts are not empty and start with that name; so a request
  that passes the missing-model check never takes the branch for \<open>no model available\<close>:
  the handler goes on to the loop over the planned models.
\<close>

theorem planned_attempts_start_with_model:
  assumes "extractModelName p \<noteq> []"
  shows "buildAttemptModels (extractModelName p) fbs \<noteq> []
     \<and> hd (buildAttemptModels (extractModelName p) fbs) = extractModelName p
     \<and> (readRequestPayload e c0 = (c, Some p) \<longrightarrow>
          (\<exists>orig. Request c = Some orig
             \<and> handleChatCompletion e cfg c0 =
                 retry_models e cfg orig (isStreamRequest p)
                   (buildAttemptModels (extractModelName p) (fallbackModels cfg))
                   (c\<lparr>payload := p, lastResp := None, lastErr := None\<rparr>)))"
proof (intro conjI impI)
  from buildAttemptModels_head [OF extractModelName_trimmed assms, of fbs]
  show "buildAttemptModels (extractModelName p) fbs \<noteq> []"
    and "hd (buildAttemptModels (extractModelName p) fbs) = extractModelName p"
    by auto
next
  assume rd: "readRequestPayload e c0 = (c, Some p)"
  from readRequestPayload_Some [OF rd] obtain orig where
    c: "c = c0" and orig: "Request c0 = Some orig" by blast
  from buildAttemptModels_head [OF extractModelName_trimmed assms, of "fallbackModels cfg"]
  have "buildAttemptModels (extractModelName p) (fallbackModels cfg) \<noteq> []" by auto
  with rd c orig assms show "\<exists>orig. Request c = Some orig
             \<and> handleChatCompletion e cfg c0 =
                 retry_models e cfg orig (isStreamRequest p)
                   (buildAttemptModels (extractModelName p) (fallbackModels cfg))
                   (c\<lparr>payload := p, lastResp := None, lastErr := None\<rparr>)"
    by (simp add: handleChatCompletion_def Let_def)
qed

theorem planned_attempts_start_with_model_witness:
  "buildAttemptModels (extractModelName payload_plain) [''m2''] \<noteq> []
   \<and> hd (buildAttemptModels (extractModelName payload_plain) [''m2'']) = ''m1''
   \<and> (\<exists>orig. Request (ctx_ex body_plain) = Some orig
         \<and> handleChatCompletion (env_ex up_terminal) cfg_ex (ctx_ex body_plain) =
             retry_models (env_ex up_terminal) cfg_ex orig (isStreamRequest payload_plain)
               (buildAttemptModels (extractModelName payload_plain) (fallbackModels cfg_ex))
               ((ctx_ex body_plain)\<lparr>payload := payload_plain, lastResp := None, lastErr := None\<rparr>))"
proof -
  have 1: "extractModelName payload_plain \<noteq> []" by code_simp
  have 2: "extractModelName payload_plain = ''m1''" by code_simp
  from planned_attempts_start_with_model [OF 1, of "[''m2'']" "env_ex up_terminal"
      "ctx_ex body_plain" "ctx_ex body_plain" cfg_ex] read_plain [of up_terminal] 2
  show ?thesis by simp
qed

end
